theory Spec2Isabelle
  imports Complex_Main "HOL-Library.Word"
begin

section \<open>JavaScript values and the operations the dashboard uses\<close>

text \<open>
  The dashboard (Dashboard component, \<^verbatim>\<open>src/unnamed/part_001\<close>) and the chat
  panel (\<^verbatim>\<open>src/frontend/src/components/Chatbot.jsx\<close> and its earlier version
  \<^verbatim>\<open>src/unnamed/part_000\<close>) are React components. Their state is a handful of
  \<^verbatim>\<open>useState\<close> cells; their handlers read JSON that axios has parsed. The
  handlers are modelled as functions from the state before to the state after, and the
  JSON they read as values of \<open>jsval\<close>, so that an absent field, a \<^verbatim>\<open>null\<close> and a
  short array are all inputs of the model.

  A JavaScript string is a sequence of 16-bit code units.
\<close>

type_synonym jsstring = "16 word list"

definition js :: "string \<Rightarrow> jsstring" where
  "js s = map of_char s"

text \<open>
  A number is an IEEE double: a finite value (read as the real number it denotes),
  an infinity or NaN. Only comparisons and truthiness of numbers are used by the
  code modelled here, so the two zeros are not distinguished.
\<close>

datatype jsnum = Fin real | PosInf | NegInf | NaN

datatype jsval =
    JUndefined
  | JNull
  | JBool bool
  | JNum jsnum
  | JStr jsstring
  | JArr "jsval list"
  | JObj "(jsstring \<times> jsval) list"

text \<open>
  Every exception the modelled code can raise is a \<^verbatim>\<open>TypeError\<close> (reading a
  property of \<^verbatim>\<open>undefined\<close> or \<^verbatim>\<open>null\<close>, calling something that is not a
  function). A computation that may throw returns \<open>jserror + 'a\<close>.
\<close>

datatype jserror = TypeError

definition ebind :: "jserror + 'a \<Rightarrow> ('a \<Rightarrow> jserror + 'b) \<Rightarrow> jserror + 'b" where
  "ebind m f = (case m of Inl e \<Rightarrow> Inl e | Inr x \<Rightarrow> f x)"

text \<open>
  The outcome of an awaited axios request: the promise is rejected (network error or
  a status outside 2xx), or fulfilled with a response whose \<^verbatim>\<open>data\<close> is the value
  carried here.
\<close>

datatype settled = Rejected | Fulfilled jsval

text \<open>
  Parts of the ECMAScript library that the code reaches but that are not modelled are
  parameters: the conversion of an array or a plain object to a primitive
  (\<^verbatim>\<open>OrdinaryToPrimitive\<close>, which yields a string or throws), the conversions between
  numbers and strings, \<^verbatim>\<open>Date.parse\<close> (a time value in milliseconds, or none for an
  invalid date), \<^verbatim>\<open>String.prototype.toUpperCase\<close>, and the names of the built-in
  members that a value inherits from its prototype chain (\<open>inherited v k\<close>: the
  name \<open>k\<close> is a member of \<^verbatim>\<open>Object.prototype\<close> or of the prototype of arrays,
  strings, numbers or booleans that \<open>v\<close> has).
\<close>

record js_lib =
  obj_to_primitive :: "jsval \<Rightarrow> jserror + jsstring"
  number_to_string :: "jsnum \<Rightarrow> jsstring"
  string_to_number :: "jsstring \<Rightarrow> jsnum"
  date_parse :: "jsstring \<Rightarrow> int option"
  to_upper_case :: "jsstring \<Rightarrow> jsstring"
  inherited :: "jsval \<Rightarrow> jsstring \<Rightarrow> bool"

text \<open>\<^verbatim>\<open>ToBoolean\<close>: what \<^verbatim>\<open>if (v)\<close>, \<^verbatim>\<open>!v\<close>, \<^verbatim>\<open>v ? a : b\<close> and \<^verbatim>\<open>v || w\<close> test.\<close>

fun js_truthy :: "jsval \<Rightarrow> bool" where
  "js_truthy JUndefined = False"
| "js_truthy JNull = False"
| "js_truthy (JBool b) = b"
| "js_truthy (JNum n) = (n \<noteq> Fin 0 \<and> n \<noteq> NaN)"
| "js_truthy (JStr s) = (s \<noteq> [])"
| "js_truthy (JArr xs) = True"
| "js_truthy (JObj kvs) = True"

definition js_or :: "jsval \<Rightarrow> jsval \<Rightarrow> jsval" where
  "js_or a b = (if js_truthy a then a else b)"

text \<open>
  \<^verbatim>\<open>v.name\<close> for the property names the program reads. Reading a property of
  \<^verbatim>\<open>undefined\<close> or \<^verbatim>\<open>null\<close> throws; a plain object yields the value stored under the
  key or \<^verbatim>\<open>undefined\<close> (the list holds the object's own properties; of a repeated
  key the first entry counts); none of the names read is a property of an array, a
  string, a number or a boolean, nor inherited from \<^verbatim>\<open>Object.prototype\<close>. The one
  computed name, \<^verbatim>\<open>allImportance[selectedTarget]\<close>, can be any string and is read with
  \<open>own_property\<close> below.
\<close>

fun js_get :: "jsval \<Rightarrow> jsstring \<Rightarrow> jserror + jsval" where
  "js_get JUndefined k = Inl TypeError"
| "js_get JNull k = Inl TypeError"
| "js_get (JObj kvs) k = Inr (case map_of kvs k of None \<Rightarrow> JUndefined | Some v \<Rightarrow> v)"
| "js_get v k = Inr JUndefined"

fun nat_digits :: "nat \<Rightarrow> jsstring" where
  "nat_digits n =
     (if n < 10 then [of_nat (48 + n)]
      else nat_digits (n div 10) @ [of_nat (48 + n mod 10)])"

text \<open>\<^verbatim>\<open>v[i]\<close> for an array index \<open>i\<close>.\<close>

fun js_index :: "jsval \<Rightarrow> nat \<Rightarrow> jserror + jsval" where
  "js_index JUndefined i = Inl TypeError"
| "js_index JNull i = Inl TypeError"
| "js_index (JArr xs) i = Inr (if i < length xs then xs ! i else JUndefined)"
| "js_index (JStr s) i = Inr (if i < length s then JStr [s ! i] else JUndefined)"
| "js_index (JObj kvs) i = js_get (JObj kvs) (nat_digits i)"
| "js_index v i = Inr JUndefined"

text \<open>
  \<^verbatim>\<open>Array.prototype.map\<close> with a callback of the element and its index; an exception
  in the callback ends the loop. Only arrays have a \<^verbatim>\<open>map\<close> method.
\<close>

fun array_map :: "('a \<Rightarrow> nat \<Rightarrow> jserror + 'b) \<Rightarrow> nat \<Rightarrow> 'a list \<Rightarrow> jserror + 'b list" where
  "array_map f i [] = Inr []"
| "array_map f i (x # xs) =
     (case f x i of
        Inl e \<Rightarrow> Inl e
      | Inr y \<Rightarrow> (case array_map f (Suc i) xs of Inl e \<Rightarrow> Inl e | Inr ys \<Rightarrow> Inr (y # ys)))"

definition js_map :: "jsval \<Rightarrow> (jsval \<Rightarrow> nat \<Rightarrow> jserror + 'b) \<Rightarrow> jserror + 'b list" where
  "js_map v f = (case v of JArr xs \<Rightarrow> array_map f 0 xs | _ \<Rightarrow> Inl TypeError)"

text \<open>\<^verbatim>\<open>v.slice(0, n)\<close>: arrays and strings have the method.\<close>

definition js_slice0 :: "jsval \<Rightarrow> nat \<Rightarrow> jserror + jsval" where
  "js_slice0 v n =
     (case v of JArr xs \<Rightarrow> Inr (JArr (take n xs)) | JStr s \<Rightarrow> Inr (JStr (take n s))
      | _ \<Rightarrow> Inl TypeError)"

text \<open>\<^verbatim>\<open>v.substring(a, b)\<close>: only strings have the method.\<close>

definition js_substring :: "jsval \<Rightarrow> nat \<Rightarrow> nat \<Rightarrow> jserror + jsstring" where
  "js_substring v a b =
     (case v of JStr s \<Rightarrow> Inr (drop (min a b) (take (max a b) s)) | _ \<Rightarrow> Inl TypeError)"

text \<open>\<^verbatim>\<open>String.prototype.trim\<close> strips WhiteSpace and LineTerminator code points.\<close>

definition is_white_space :: "16 word \<Rightarrow> bool" where
  "is_white_space c \<longleftrightarrow>
     c \<in> {0x9, 0xA, 0xB, 0xC, 0xD, 0x20, 0xA0, 0x1680, 0x2028, 0x2029, 0x202F, 0x205F,
          0x3000, 0xFEFF}
     \<or> (0x2000 \<le> c \<and> c \<le> 0x200A)"

definition trim :: "jsstring \<Rightarrow> jsstring" where
  "trim s = rev (dropWhile is_white_space (rev (dropWhile is_white_space s)))"

text \<open>The relational operator \<^verbatim>\<open>a < b\<close> (\<^verbatim>\<open>IsLessThan\<close>).\<close>

fun num_lt :: "jsnum \<Rightarrow> jsnum \<Rightarrow> bool" where
  "num_lt NaN y = False"
| "num_lt x NaN = False"
| "num_lt (Fin a) (Fin b) = (a < b)"
| "num_lt (Fin a) PosInf = True"
| "num_lt NegInf (Fin b) = True"
| "num_lt NegInf PosInf = True"
| "num_lt x y = False"

fun str_lt :: "jsstring \<Rightarrow> jsstring \<Rightarrow> bool" where
  "str_lt [] [] = False"
| "str_lt [] (y # ys) = True"
| "str_lt (x # xs) [] = False"
| "str_lt (x # xs) (y # ys) = (x < y \<or> (x = y \<and> str_lt xs ys))"

definition to_primitive :: "js_lib \<Rightarrow> jsval \<Rightarrow> jserror + jsval" where
  "to_primitive lib v =
     (case v of
        JArr xs \<Rightarrow> ebind (obj_to_primitive lib v) (\<lambda>s. Inr (JStr s))
      | JObj kvs \<Rightarrow> ebind (obj_to_primitive lib v) (\<lambda>s. Inr (JStr s))
      | _ \<Rightarrow> Inr v)"

text \<open>\<^verbatim>\<open>ToNumber\<close> of a primitive.\<close>

definition to_number :: "js_lib \<Rightarrow> jsval \<Rightarrow> jsnum" where
  "to_number lib v =
     (case v of
        JUndefined \<Rightarrow> NaN
      | JNull \<Rightarrow> Fin 0
      | JBool b \<Rightarrow> Fin (if b then 1 else 0)
      | JNum n \<Rightarrow> n
      | JStr s \<Rightarrow> string_to_number lib s
      | _ \<Rightarrow> NaN)"

definition js_lt :: "js_lib \<Rightarrow> jsval \<Rightarrow> jsval \<Rightarrow> jserror + bool" where
  "js_lt lib a b =
     ebind (to_primitive lib a) (\<lambda>pa.
     ebind (to_primitive lib b) (\<lambda>pb.
       Inr (case (pa, pb) of
              (JStr x, JStr y) \<Rightarrow> str_lt x y
            | _ \<Rightarrow> num_lt (to_number lib pa) (to_number lib pb))))"

text \<open>\<^verbatim>\<open>ToString\<close>, as a template literal applies it to an interpolated value.\<close>

definition js_to_string :: "js_lib \<Rightarrow> jsval \<Rightarrow> jserror + jsstring" where
  "js_to_string lib v =
     (case v of
        JUndefined \<Rightarrow> Inr (js ''undefined'')
      | JNull \<Rightarrow> Inr (js ''null'')
      | JBool b \<Rightarrow> Inr (if b then js ''true'' else js ''false'')
      | JNum n \<Rightarrow> Inr (number_to_string lib n)
      | JStr s \<Rightarrow> Inr s
      | _ \<Rightarrow> obj_to_primitive lib v)"

text \<open>
  \<^verbatim>\<open>new Date(v)\<close> for one argument: the time value in milliseconds since the epoch,
  or none for an invalid date. A string is parsed; any other primitive is converted
  to a number and clipped (\<^verbatim>\<open>TimeClip\<close>).
\<close>

definition time_clip :: "jsnum \<Rightarrow> int option" where
  "time_clip n =
     (case n of
        Fin r \<Rightarrow> (if \<bar>r\<bar> \<le> 8640000000000000 then Some (sgn \<lfloor>r\<rfloor> * \<lfloor>\<bar>r\<bar>\<rfloor>) else None)
      | _ \<Rightarrow> None)"

definition new_Date :: "js_lib \<Rightarrow> jsval \<Rightarrow> jserror + int option" where
  "new_Date lib v =
     ebind (to_primitive lib v) (\<lambda>p.
       Inr (case p of JStr s \<Rightarrow> date_parse lib s | _ \<Rightarrow> time_clip (to_number lib p)))"

definition getTime :: "int option \<Rightarrow> jsval" where
  "getTime d = (case d of None \<Rightarrow> JNum NaN | Some t \<Rightarrow> JNum (Fin (of_int t)))"

section \<open>The chat panel\<close>

text \<open>
  The state of the Chatbot component: one field for each \<^verbatim>\<open>useState\<close> cell.
  \<open>draft\<close> starts as the empty string and receives whatever the server sent in
  \<^verbatim>\<open>res.data.draft\<close>; \<open>imageBase64\<close> is \<^verbatim>\<open>null\<close> or a data URL.
\<close>

datatype role = User | Ai

record chat_message =
  role :: role
  content :: jsval
  image :: jsval

record chat_state =
  isOpen :: bool
  messages :: "chat_message list"
  input :: jsstring
  draft :: jsval
  loading :: bool
  sessionId :: jsstring
  imageFile :: jsval
  imageBase64 :: jsval

text \<open>The body of \<^verbatim>\<open>POST /chat\<close>.\<close>

record chat_payload =
  message :: jsstring
  session_id :: jsstring
  image_base64 :: jsval

definition default_prompt :: jsstring where
  "default_prompt = js ''Please analyze this image.''"

definition error_message :: chat_message where
  "error_message =
     \<lparr>role = Ai, content = JStr ([0x26A0, 0xFE0F] @ js '' Error connecting to server.''),
      image = JUndefined\<rparr>"

definition removeImage :: "chat_state \<Rightarrow> chat_state" where
  "removeImage s = s\<lparr>imageFile := JNull, imageBase64 := JNull\<rparr>"

text \<open>
  \<^verbatim>\<open>sendMessage\<close> of Chatbot.jsx up to its \<^verbatim>\<open>await\<close>: nothing happens (\<open>None\<close>)
  when the guard returns; otherwise the user message is appended, the input and the
  staged image are cleared, \<open>loading\<close> is set and the request is issued.
\<close>

definition sendMessage_start :: "chat_state \<Rightarrow> (chat_payload \<times> chat_state) option" where
  "sendMessage_start s =
     (if trim (input s) = [] then None
      else
        let newMsg = \<lparr>role = User, content = JStr (input s), image = imageBase64 s\<rparr>;
            currentInput = input s;
            currentImg = imageBase64 s;
            s1 = (removeImage (s\<lparr>messages := messages s @ [newMsg], input := []\<rparr>))
                   \<lparr>loading := True\<rparr>;
            payload =
              \<lparr>message = (if trim currentInput \<noteq> [] then trim currentInput else default_prompt),
               session_id = sessionId s,
               image_base64 = currentImg\<rparr>
        in Some (payload, s1))"

text \<open>
  The earlier version of the component (part_000) has no image: the user message has
  no \<^verbatim>\<open>image\<close> property and the request carries the input as typed.
\<close>

definition sendMessage_start_v0 :: "chat_state \<Rightarrow> (chat_payload \<times> chat_state) option" where
  "sendMessage_start_v0 s =
     (if trim (input s) = [] then None
      else
        let newMsg = \<lparr>role = User, content = JStr (input s), image = JUndefined\<rparr>;
            s1 = s\<lparr>messages := messages s @ [newMsg], input := [], loading := True\<rparr>;
            payload =
              \<lparr>message = input s, session_id = sessionId s, image_base64 = JUndefined\<rparr>
        in Some (payload, s1))"

text \<open>
  \<^verbatim>\<open>sendMessage\<close> from the \<^verbatim>\<open>await\<close> on (the same code in both versions), applied to
  the state the component has when the request settles. An exception in the
  \<^verbatim>\<open>try\<close> block is caught and reported like a failed request; \<^verbatim>\<open>finally\<close> clears
  \<open>loading\<close>.
\<close>

definition sendMessage_done :: "settled \<Rightarrow> chat_state \<Rightarrow> chat_state" where
  "sendMessage_done out s =
     (let failed = (\<lambda>t. t\<lparr>messages := messages t @ [error_message]\<rparr>);
          s' =
            (case out of
               Rejected \<Rightarrow> failed s
             | Fulfilled d \<Rightarrow>
                 (case js_get d (js ''response'') of
                    Inl e \<Rightarrow> failed s
                  | Inr r \<Rightarrow>
                      let aiMsg = \<lparr>role = Ai, content = r, image = JUndefined\<rparr>;
                          s1 = s\<lparr>messages := messages s @ [aiMsg]\<rparr>
                      in (case js_get d (js ''draft'') of
                            Inl e \<Rightarrow> failed s1
                          | Inr dr \<Rightarrow> if js_truthy dr then s1\<lparr>draft := dr\<rparr> else s1)))
      in s'\<lparr>loading := False\<rparr>)"

text \<open>
  One whole invocation of \<^verbatim>\<open>sendMessage\<close> during which nothing else touches the
  state: the request issued (if any) and the state after the request has settled.
\<close>

definition sendMessage :: "chat_state \<Rightarrow> settled \<Rightarrow> chat_payload option \<times> chat_state" where
  "sendMessage s out =
     (case sendMessage_start s of
        None \<Rightarrow> (None, s)
      | Some (p, s1) \<Rightarrow> (Some p, sendMessage_done out s1))"

definition sendMessage_v0 :: "chat_state \<Rightarrow> settled \<Rightarrow> chat_payload option \<times> chat_state" where
  "sendMessage_v0 s out =
     (case sendMessage_start_v0 s of
        None \<Rightarrow> (None, s)
      | Some (p, s1) \<Rightarrow> (Some p, sendMessage_done out s1))"

text \<open>The send button is disabled when \<^verbatim>\<open>loading || (!input.trim() && !imageBase64)\<close>.\<close>

definition send_disabled :: "chat_state \<Rightarrow> bool" where
  "send_disabled s \<longleftrightarrow> loading s \<or> (trim (input s) = [] \<and> \<not> js_truthy (imageBase64 s))"

text \<open>The draft box is rendered when \<^verbatim>\<open>isOpen && draft\<close>.\<close>

definition draft_shown :: "chat_state \<Rightarrow> bool" where
  "draft_shown s \<longleftrightarrow> isOpen s \<and> js_truthy (draft s)"

text \<open>
  \<^verbatim>\<open>handleApprove\<close> up to its \<^verbatim>\<open>await\<close>: \<open>loading\<close> is set and the request carries the
  session id.
\<close>

definition handleApprove_start :: "chat_state \<Rightarrow> jsstring \<times> chat_state" where
  "handleApprove_start s = (sessionId s, s\<lparr>loading := True\<rparr>)"

definition success_text :: "jsstring \<Rightarrow> jsstring" where
  "success_text wo =
     [0x2705] @ js '' Success! Work Order '' @ wo @ js '' has been saved to the database.''"

text \<open>
  \<^verbatim>\<open>handleApprove\<close> from the \<^verbatim>\<open>await\<close> on. On rejection the \<^verbatim>\<open>catch\<close> block alerts and
  changes no state. On success the draft is cleared and a message is appended by an
  updater function; the text of that message is computed when React runs the
  updater, outside the \<^verbatim>\<open>try\<close> block, so an exception there is not caught
  (\<open>Inl\<close>). \<^verbatim>\<open>finally\<close> clears \<open>loading\<close>.
\<close>

definition handleApprove_done :: "js_lib \<Rightarrow> settled \<Rightarrow> chat_state \<Rightarrow> jserror + chat_state" where
  "handleApprove_done lib out s =
     (case out of
        Rejected \<Rightarrow> Inr (s\<lparr>loading := False\<rparr>)
      | Fulfilled d \<Rightarrow>
          ebind (js_get d (js ''work_order_id'')) (\<lambda>wo.
          ebind (js_to_string lib wo) (\<lambda>txt.
            Inr (s\<lparr>draft := JStr [],
                   messages := messages s @
                     [\<lparr>role = Ai, content = JStr (success_text txt), image = JUndefined\<rparr>],
                   loading := False\<rparr>))))"

text \<open>
  One whole invocation of \<^verbatim>\<open>handleApprove\<close>: the session id sent and the outcome.
\<close>

definition handleApprove ::
  "js_lib \<Rightarrow> chat_state \<Rightarrow> settled \<Rightarrow> jsstring \<times> (jserror + chat_state)" where
  "handleApprove lib s out =
     (case handleApprove_start s of (sid, s1) \<Rightarrow> (sid, handleApprove_done lib out s1))"

section \<open>The dashboard\<close>

text \<open>
  The points of the line chart and of the scatter charts, and the rows of the
  importance chart, are the object literals the code builds.
\<close>

record forecast_point =
  time :: jsstring
  history :: jsval
  history_error :: jsval
  forecast :: jsval

record anomaly_point =
  a_time :: jsval
  score :: jsval
  rawValue :: jsval
  status :: jsstring
  dateStr :: jsval

record importance_entry =
  feature :: jsstring
  importance :: jsval

text \<open>
  The state cells of the Dashboard component that the polling effects write
  (the work-order list has an effect of its own and is left out).
\<close>

record dashboard_state =
  summary :: jsval
  forecastData :: "forecast_point list"
  anomalyData :: "anomaly_point list"
  importanceData :: "importance_entry list"
  threshold :: jsval

text \<open>
  The error flag of history point \<open>i\<close>:
  \<^verbatim>\<open>history_flags ? history_flags[i] : false\<close>; \<open>d\<close> is \<^verbatim>\<open>forecastRes.data\<close>.
\<close>

definition isError :: "jsval \<Rightarrow> nat \<Rightarrow> jserror + jsval" where
  "isError d i =
     ebind (js_get d (js ''history_flags'')) (\<lambda>hf.
       if js_truthy hf then js_index hf i else Inr (JBool False))"

text \<open>The callback of \<^verbatim>\<open>history_x.map\<close>.\<close>

definition history_point :: "jsval \<Rightarrow> jsval \<Rightarrow> nat \<Rightarrow> jserror + forecast_point" where
  "history_point d t i =
     ebind (js_get d (js ''history_y'')) (\<lambda>hy.
     ebind (js_index hy i) (\<lambda>val.
     ebind (isError d i) (\<lambda>flag.
     ebind (js_substring t 11 16) (\<lambda>tm.
       Inr \<lparr>time = tm, history = val,
            history_error = (if js_truthy flag then val else JNull),
            forecast = JNull\<rparr>))))"

text \<open>The callback of \<^verbatim>\<open>forecast_x.map\<close>.\<close>

definition future_point :: "jsval \<Rightarrow> jsval \<Rightarrow> nat \<Rightarrow> jserror + forecast_point" where
  "future_point d t i =
     ebind (js_substring t 11 16) (\<lambda>tm.
     ebind (js_get d (js ''forecast_y'')) (\<lambda>fy.
     ebind (js_index fy i) (\<lambda>val.
       Inr \<lparr>time = tm, history = JNull, history_error = JNull, forecast = val\<rparr>)))"

text \<open>Lines 155 to 173 of \<^verbatim>\<open>fetchCharts\<close>: the argument of \<^verbatim>\<open>setForecastData\<close>.\<close>

definition merge_forecast :: "jsval \<Rightarrow> jserror + forecast_point list" where
  "merge_forecast d =
     ebind (js_get d (js ''history_x'')) (\<lambda>hx.
     ebind (js_map hx (history_point d)) (\<lambda>hist.
     ebind (js_get d (js ''forecast_x'')) (\<lambda>fx.
     ebind (js_map fx (future_point d)) (\<lambda>fut.
       Inr (hist @ fut)))))"

text \<open>The callback of \<^verbatim>\<open>scores.map\<close>.\<close>

definition anomaly_of ::
  "js_lib \<Rightarrow> jsval \<Rightarrow> jsval \<Rightarrow> jsval \<Rightarrow> jsval \<Rightarrow> nat \<Rightarrow> jserror + anomaly_point" where
  "anomaly_of lib currentThreshold timestamps rawValues sc i =
     ebind (js_index timestamps i) (\<lambda>ts.
     ebind (if js_truthy ts then ebind (new_Date lib ts) (\<lambda>dt. Inr (getTime dt))
            else Inr (JNum (Fin (real i)))) (\<lambda>tm.
     ebind (js_index rawValues i) (\<lambda>rv.
     ebind (js_lt lib sc currentThreshold) (\<lambda>below.
       Inr \<lparr>a_time = tm, score = sc, rawValue = js_or rv (JNum (Fin 0)),
            status = (if below then js ''Anomaly'' else js ''Normal''),
            dateStr = ts\<rparr>))))"

text \<open>
  Lines 176 to 186: the arguments of \<^verbatim>\<open>setAnomalyData\<close> and \<^verbatim>\<open>setThreshold\<close>;
  \<open>d\<close> is \<^verbatim>\<open>anomalyRes.data\<close>.
\<close>

definition anomalies_of :: "js_lib \<Rightarrow> jsval \<Rightarrow> jserror + (anomaly_point list \<times> jsval)" where
  "anomalies_of lib d =
     ebind (js_get d (js ''threshold'')) (\<lambda>currentThreshold.
     ebind (js_get d (js ''timestamps'')) (\<lambda>ts0.
     ebind (js_get d (js ''raw_values'')) (\<lambda>rv0.
     ebind (js_get d (js ''scores'')) (\<lambda>scores.
     ebind (js_map scores
              (anomaly_of lib currentThreshold (js_or ts0 (JArr [])) (js_or rv0 (JArr []))))
       (\<lambda>anomalies. Inr (anomalies, currentThreshold))))))"

text \<open>The callback of the importance \<^verbatim>\<open>map\<close>.\<close>

definition importance_of :: "js_lib \<Rightarrow> jsval \<Rightarrow> nat \<Rightarrow> jserror + importance_entry" where
  "importance_of lib item i =
     ebind (js_get item (js ''feature'')) (\<lambda>f.
     ebind (case f of
              JStr s \<Rightarrow> Inr (to_upper_case lib (map (\<lambda>c. if c = 0x5F then 0x20 else c) s))
            | _ \<Rightarrow> Inl TypeError) (\<lambda>name.
     ebind (js_get item (js ''importance'')) (\<lambda>imp.
       Inr \<lparr>feature = name, importance = imp\<rparr>)))"

text \<open>
  The own property of a value under an arbitrary name, as \<^verbatim>\<open>v[k]\<close> finds it before
  it looks at the prototype chain: a key of an object; an index or \<^verbatim>\<open>length\<close> of an
  array or of a string. Numbers and booleans have none.
\<close>

definition own_property :: "jsval \<Rightarrow> jsstring \<Rightarrow> jsval option" where
  "own_property v k =
     (case v of
        JObj kvs \<Rightarrow> map_of kvs k
      | JArr xs \<Rightarrow>
          (if k = js ''length'' then Some (JNum (Fin (real (length xs))))
           else map_option (\<lambda>i. xs ! i) (find (\<lambda>i. nat_digits i = k) [0..<length xs]))
      | JStr str \<Rightarrow>
          (if k = js ''length'' then Some (JNum (Fin (real (length str))))
           else map_option (\<lambda>i. JStr [str ! i]) (find (\<lambda>i. nat_digits i = k) [0..<length str]))
      | _ \<Rightarrow> None)"

text \<open>
  Lines 192 to 201: the argument of \<^verbatim>\<open>setImportanceData\<close>, or \<open>None\<close> when the guard
  skips the update; \<open>d\<close> is \<^verbatim>\<open>importanceRes.data\<close>.

  When \<^verbatim>\<open>allImportance[selectedTarget]\<close> is no own property but an inherited built-in
  member, it is a function or a prototype object, which is truthy. Neither has a
  \<^verbatim>\<open>slice\<close> method that yields something with a \<^verbatim>\<open>map\<close> method, so the chain
  throws, with one exception: \<^verbatim>\<open>__proto__\<close> of an array is \<^verbatim>\<open>Array.prototype\<close>, whose
  \<^verbatim>\<open>slice(0, 10)\<close> is an empty array.
\<close>

definition importance_top ::
  "js_lib \<Rightarrow> jsstring \<Rightarrow> jsval \<Rightarrow> jserror + importance_entry list option" where
  "importance_top lib selectedTarget d =
     (if \<not> js_truthy d then Inr None
      else
        (case own_property d selectedTarget of
           Some fs \<Rightarrow>
             if \<not> js_truthy fs then Inr None
             else
               ebind (js_slice0 fs 10) (\<lambda>top.
               ebind (js_map top (importance_of lib)) (\<lambda>topFeatures.
                 Inr (Some topFeatures)))
         | None \<Rightarrow>
             if \<not> inherited lib d selectedTarget then Inr None
             else
               (case d of
                  JArr xs \<Rightarrow>
                    if selectedTarget = js ''__proto__'' then Inr (Some []) else Inl TypeError
                | _ \<Rightarrow> Inl TypeError)))"

text \<open>
  One run of \<^verbatim>\<open>fetchCharts\<close> from the \<^verbatim>\<open>await Promise.all\<close> on, applied to the
  state the component has when the three requests have settled. \<open>selectedTarget\<close>
  is the metric the effect was created for. The setters are called in the order
  of the source; an exception between two of them leaves the earlier calls in
  effect and skips the later ones (the \<^verbatim>\<open>catch\<close> block only logs).
\<close>

definition fetchCharts_done ::
  "js_lib \<Rightarrow> jsstring \<Rightarrow> settled \<Rightarrow> settled \<Rightarrow> settled \<Rightarrow> dashboard_state \<Rightarrow> dashboard_state"
  where
  "fetchCharts_done lib selectedTarget forecastRes anomalyRes importanceRes s =
     (case (forecastRes, anomalyRes, importanceRes) of
        (Fulfilled fd, Fulfilled ad, Fulfilled imd) \<Rightarrow>
          (case merge_forecast fd of
             Inl e \<Rightarrow> s
           | Inr pts \<Rightarrow>
               let s1 = s\<lparr>forecastData := pts\<rparr> in
               (case anomalies_of lib ad of
                  Inl e \<Rightarrow> s1
                | Inr (anomalies, currentThreshold) \<Rightarrow>
                    let s2 = s1\<lparr>anomalyData := anomalies, threshold := currentThreshold\<rparr> in
                    (case importance_top lib selectedTarget imd of
                       Inl e \<Rightarrow> s2
                     | Inr None \<Rightarrow> s2
                     | Inr (Some topFeatures) \<Rightarrow> s2\<lparr>importanceData := topFeatures\<rparr>)))
      | _ \<Rightarrow> s)"

text \<open>\<^verbatim>\<open>fetchSummary\<close>: a fulfilled request stores the response, a rejected one is logged.\<close>

definition fetchSummary_done :: "settled \<Rightarrow> dashboard_state \<Rightarrow> dashboard_state" where
  "fetchSummary_done out s =
     (case out of Rejected \<Rightarrow> s | Fulfilled d \<Rightarrow> s\<lparr>summary := d\<rparr>)"

text \<open>
  \<^verbatim>\<open>isStale\<close>: \<open>now\<close> is the time value of \<^verbatim>\<open>new Date()\<close> in milliseconds. The
  difference of two time values is an integer number of milliseconds, and
  \<^verbatim>\<open>Math.floor(diff / 60000) > 30\<close> holds for the doubles exactly when it holds for
  the integers, so the arithmetic is done on \<open>int\<close>. A difference with an invalid
  date is NaN, and \<^verbatim>\<open>NaN > 30\<close> is false.
\<close>

definition isStale :: "js_lib \<Rightarrow> int \<Rightarrow> jsval \<Rightarrow> jserror + bool" where
  "isStale lib now sm =
     (if \<not> js_truthy sm then Inr False
      else
        ebind (js_get sm (js ''data_timestamp'')) (\<lambda>ts.
          if \<not> js_truthy ts then Inr False
          else
            ebind (new_Date lib ts) (\<lambda>sensorTime.
              Inr (case sensorTime of
                     None \<Rightarrow> False
                   | Some t \<Rightarrow> (let diffMins = (now - t) div 60000 in diffMins > 30)))))"


section \<open>Concrete inputs\<close>

text \<open>
  Inputs on which the definitions are evaluated below. The library instance is only
  used where the evaluation converts no object and no number; of date strings it
  knows the epoch, and of inherited members those of \<^verbatim>\<open>Object.prototype\<close>.
\<close>

definition example_lib :: js_lib where
  "example_lib =
     \<lparr>obj_to_primitive = (\<lambda>v. Inr (js ''[object Object]'')),
      number_to_string = (\<lambda>n. js ''0''),
      string_to_number = (\<lambda>s. NaN),
      date_parse = (\<lambda>s. if s = js ''1970-01-01T00:00:00.000Z'' then Some 0 else None),
      to_upper_case = map (\<lambda>c. if 0x61 \<le> c \<and> c \<le> 0x7A then c - 0x20 else c),
      inherited = (\<lambda>v k. k \<in> set (map js
        [''constructor'', ''__proto__'', ''hasOwnProperty'', ''isPrototypeOf'',
         ''propertyIsEnumerable'', ''toLocaleString'', ''toString'', ''valueOf'']))\<rparr>"

definition example_chat :: "string \<Rightarrow> jsval \<Rightarrow> jsval \<Rightarrow> chat_state" where
  "example_chat txt dr img =
     \<lparr>isOpen = True, messages = [], input = js txt, draft = dr, loading = False,
      sessionId = js ''session-k3j9x2m1q'', imageFile = JNull, imageBase64 = img\<rparr>"

definition reply :: "string \<Rightarrow> jsval \<Rightarrow> jsval" where
  "reply txt dr = JObj [(js ''response'', JStr (js txt)), (js ''draft'', dr)]"


text \<open>
  Responses of \<^verbatim>\<open>GET /forecast/{metric}\<close> and \<^verbatim>\<open>GET /anomalies/{metric}\<close> with the
  given fields; a field given as \<open>JUndefined\<close> reads like an absent one.
\<close>

definition forecast_response ::
  "jsval list \<Rightarrow> jsval list \<Rightarrow> jsval \<Rightarrow> jsval list \<Rightarrow> jsval list \<Rightarrow> jsval" where
  "forecast_response hx hy hf fx fy =
     JObj [(js ''history_x'', JArr hx), (js ''history_y'', JArr hy), (js ''history_flags'', hf),
           (js ''forecast_x'', JArr fx), (js ''forecast_y'', JArr fy)]"

definition anomaly_response :: "jsval \<Rightarrow> jsval \<Rightarrow> jsval \<Rightarrow> jsval \<Rightarrow> jsval" where
  "anomaly_response thr ts rv sc =
     JObj [(js ''threshold'', thr), (js ''timestamps'', ts), (js ''raw_values'', rv),
           (js ''scores'', sc)]"

definition example_dashboard :: dashboard_state where
  "example_dashboard =
     \<lparr>summary = JNull, forecastData = [], anomalyData = [], importanceData = [],
      threshold = JNum (Fin 0)\<rparr>"

section \<open>Basic facts about the operations\<close>

lemma ebind_Inl [simp]: "ebind (Inl e) f = Inl e"
  by (simp add: ebind_def)

lemma ebind_Inr [simp]: "ebind (Inr x) f = f x"
  by (simp add: ebind_def)

lemma ebind_eq_Inr: "ebind m f = Inr y \<longleftrightarrow> (\<exists>x. m = Inr x \<and> f x = Inr y)"
  by (cases m) simp_all

lemma js_get_defined: "js_get d k = Inr v \<Longrightarrow> \<exists>w. js_get d k' = Inr w"
  by (cases d) simp_all

section \<open>The chat panel: drafts, approval and the send guard\<close>

text \<open>The draft after a request has settled, in terms of the draft before.\<close>

lemma draft_after_done:
  "draft (sendMessage_done out s) =
     (case out of
        Rejected \<Rightarrow> draft s
      | Fulfilled d \<Rightarrow>
          (case js_get d (js ''draft'') of
             Inl e \<Rightarrow> draft s
           | Inr dr \<Rightarrow> if js_truthy dr then dr else draft s))"
proof (cases out)
  case Rejected
  then show ?thesis by (simp add: sendMessage_done_def)
next
  case (Fulfilled d)
  show ?thesis
  proof (cases "js_get d (js ''draft'')")
    case (Inl e)
    then have "js_get d (js ''response'') = Inl TypeError"
      by (cases d) simp_all
    with Fulfilled Inl show ?thesis by (simp add: sendMessage_done_def)
  next
    case (Inr dr)
    then obtain r where "js_get d (js ''response'') = Inr r"
      using js_get_defined by blast
    with Fulfilled Inr show ?thesis by (simp add: sendMessage_done_def Let_def)
  qed
qed

lemma sendMessage_start_Some:
  "trim (input s) \<noteq> [] \<Longrightarrow> \<exists>p s1. sendMessage_start s = Some (p, s1) \<and> draft s1 = draft s"
  by (simp add: sendMessage_start_def removeImage_def Let_def)

lemma sendMessage_start_v0_Some:
  "trim (input s) \<noteq> [] \<Longrightarrow> \<exists>p s1. sendMessage_start_v0 s = Some (p, s1) \<and> draft s1 = draft s"
  by (simp add: sendMessage_start_v0_def Let_def)

lemma sendMessage_draft:
  "draft (snd (sendMessage s out)) =
     (if trim (input s) = [] then draft s else draft (sendMessage_done out s))"
proof (cases "trim (input s) = []")
  case True
  then show ?thesis by (simp add: sendMessage_def sendMessage_start_def)
next
  case False
  then obtain p s1 where "sendMessage_start s = Some (p, s1)" and "draft s1 = draft s"
    using sendMessage_start_Some by blast
  with False show ?thesis
    by (simp add: sendMessage_def draft_after_done split: settled.splits sum.splits)
qed

lemma sendMessage_v0_draft:
  "draft (snd (sendMessage_v0 s out)) =
     (if trim (input s) = [] then draft s else draft (sendMessage_done out s))"
proof (cases "trim (input s) = []")
  case True
  then show ?thesis by (simp add: sendMessage_v0_def sendMessage_start_v0_def)
next
  case False
  then obtain p s1 where "sendMessage_start_v0 s = Some (p, s1)" and "draft s1 = draft s"
    using sendMessage_start_v0_Some by blast
  with False show ?thesis
    by (simp add: sendMessage_v0_def draft_after_done split: settled.splits sum.splits)
qed

text \<open>
  C3. Two invocations of \<^verbatim>\<open>sendMessage\<close> follow each other (the user types \<open>txt\<close>
  in between); both requests are fulfilled and both responses carry draft content (a
  truthy \<^verbatim>\<open>draft\<close> field). After the first the pending draft is the first
  response's draft, after the second it is exactly the second response's draft:
  nothing of the first is kept. This holds for both versions of the component.
\<close>

theorem second_draft_replaces_first:
  assumes "send \<in> {sendMessage, sendMessage_v0}"
    and "trim (input s) \<noteq> []" and "trim txt \<noteq> []"
    and "js_get r1 (js ''draft'') = Inr d1" and "js_truthy d1"
    and "js_get r2 (js ''draft'') = Inr d2" and "js_truthy d2"
    and "s1 = snd (send s (Fulfilled r1))"
  shows "draft s1 = d1 \<and> draft (snd (send (s1\<lparr>input := txt\<rparr>) (Fulfilled r2))) = d2"
proof -
  have *: "draft (snd (send t out)) =
     (if trim (input t) = [] then draft t else draft (sendMessage_done out t))" for t out
    using assms(1) sendMessage_draft sendMessage_v0_draft by auto
  have "draft s1 = d1"
    using assms(2,4,5,8) by (simp add: * draft_after_done)
  moreover have "draft (snd (send (s1\<lparr>input := txt\<rparr>) (Fulfilled r2))) = d2"
    using assms(3,6,7) by (simp add: * draft_after_done)
  ultimately show ?thesis by simp
qed

text \<open>
  The scenario of the specification: a draft is proposed, the user asks for a change,
  a second draft arrives.
\<close>

theorem second_draft_replaces_first_witness:
  "trim (input (example_chat ''Draft a work order for high vibration.'' (JStr []) JNull)) \<noteq> []
   \<and> trim (js ''Add a torque check.'') \<noteq> []
   \<and> js_truthy (JStr (js ''Inspect bearing''))
   \<and> js_truthy (JStr (js ''Inspect bearing, check torque''))
   \<and> draft (snd (sendMessage
        ((snd (sendMessage (example_chat ''Draft a work order for high vibration.'' (JStr []) JNull)
                 (Fulfilled (reply ''Here is a draft.'' (JStr (js ''Inspect bearing''))))))
           \<lparr>input := js ''Add a torque check.''\<rparr>)
        (Fulfilled (reply ''Updated.'' (JStr (js ''Inspect bearing, check torque''))))))
     = JStr (js ''Inspect bearing, check torque'')"
proof -
  have a: "trim (input (example_chat ''Draft a work order for high vibration.'' (JStr []) JNull)) \<noteq> []"
    by (simp add: example_chat_def trim_def js_def is_white_space_def)
  have b: "trim (js ''Add a torque check.'') \<noteq> []"
    by (simp add: trim_def js_def is_white_space_def)
  have c: "js_get (reply ''Here is a draft.'' (JStr (js ''Inspect bearing''))) (js ''draft'')
             = Inr (JStr (js ''Inspect bearing''))"
    by (simp add: reply_def js_def)
  have d: "js_get (reply ''Updated.'' (JStr (js ''Inspect bearing, check torque''))) (js ''draft'')
             = Inr (JStr (js ''Inspect bearing, check torque''))"
    by (simp add: reply_def js_def)
  have e: "js_truthy (JStr (js ''Inspect bearing''))" by (simp add: js_def)
  have f: "js_truthy (JStr (js ''Inspect bearing, check torque''))" by (simp add: js_def)
  from second_draft_replaces_first [of sendMessage, OF _ a b c e d f refl] a b e f
  show ?thesis by simp
qed


lemma send_draft:
  assumes "send \<in> {sendMessage, sendMessage_v0}"
  shows "draft (snd (send s out)) =
     (if trim (input s) = [] then draft s else draft (sendMessage_done out s))"
  using assms sendMessage_draft sendMessage_v0_draft by auto

text \<open>
  C10. \<^verbatim>\<open>sendMessage\<close> changes the pending draft only when the request is
  fulfilled and the \<^verbatim>\<open>draft\<close> field of the response is truthy, and then the new
  draft is that field; a field that is absent (\<^verbatim>\<open>undefined\<close>), \<^verbatim>\<open>null\<close> or the empty
  string leaves the draft as it was. A string is truthy exactly when it is not empty.
  Hence a response never clears an existing draft, and a draft that is displayed is
  never the empty string.
\<close>

theorem draft_changes_only_on_truthy_draft_field:
  assumes "send \<in> {sendMessage, sendMessage_v0}"
  shows
    "(draft (snd (send s out)) \<noteq> draft s \<longrightarrow>
        (\<exists>d dr. out = Fulfilled d \<and> js_get d (js ''draft'') = Inr dr \<and> js_truthy dr
                \<and> draft (snd (send s out)) = dr))
     \<and> (js_get d0 (js ''draft'') = Inr dr0 \<and> dr0 \<in> {JUndefined, JNull, JStr []} \<longrightarrow>
        draft (snd (send s (Fulfilled d0))) = draft s)
     \<and> (js_truthy (JStr x) \<longleftrightarrow> x \<noteq> [])
     \<and> (js_truthy (draft s) \<longrightarrow> js_truthy (draft (snd (send s out))))
     \<and> (draft_shown s \<longrightarrow> draft s \<noteq> JStr [])"
proof -
  note d = send_draft [OF assms] draft_after_done
  have A: "draft (snd (send s out)) \<noteq> draft s \<longrightarrow>
        (\<exists>d dr. out = Fulfilled d \<and> js_get d (js ''draft'') = Inr dr \<and> js_truthy dr
                \<and> draft (snd (send s out)) = dr)"
    by (simp add: d split: settled.splits sum.splits)
  have B: "js_get d0 (js ''draft'') = Inr dr0 \<and> dr0 \<in> {JUndefined, JNull, JStr []} \<longrightarrow>
        draft (snd (send s (Fulfilled d0))) = draft s"
    by (auto simp: d)
  have C: "js_truthy (draft s) \<longrightarrow> js_truthy (draft (snd (send s out)))"
    by (simp add: d split: settled.splits sum.splits)
  have D: "draft_shown s \<longrightarrow> draft s \<noteq> JStr []"
    by (auto simp: draft_shown_def)
  from A B C D show ?thesis by simp
qed

text \<open>
  A pending draft is replaced by a response with a new draft, kept by a response
  whose draft is empty, and shown while the panel is open.
\<close>

theorem draft_changes_only_on_truthy_draft_field_witness:
  "draft (snd (sendMessage (example_chat ''Status?'' (JStr (js ''Inspect bearing'')) JNull)
                 (Fulfilled (reply ''Revised.'' (JStr (js ''Replace belt'')))))) = JStr (js ''Replace belt'')
   \<and> JStr (js ''Replace belt'') \<noteq> draft (example_chat ''Status?'' (JStr (js ''Inspect bearing'')) JNull)
   \<and> js_get (reply ''All normal.'' (JStr [])) (js ''draft'') = Inr (JStr [])
   \<and> draft (snd (sendMessage (example_chat ''Status?'' (JStr (js ''Inspect bearing'')) JNull)
                 (Fulfilled (reply ''All normal.'' (JStr []))))) = JStr (js ''Inspect bearing'')
   \<and> js_truthy (draft (example_chat ''Status?'' (JStr (js ''Inspect bearing'')) JNull))
   \<and> draft_shown (example_chat ''Status?'' (JStr (js ''Inspect bearing'')) JNull)
   \<and> draft (example_chat ''Status?'' (JStr (js ''Inspect bearing'')) JNull) \<noteq> JStr []"
proof -
  let ?s = "example_chat ''Status?'' (JStr (js ''Inspect bearing'')) JNull"
  have t: "trim (input ?s) \<noteq> []"
    by (simp add: example_chat_def trim_def js_def is_white_space_def)
  have g1: "js_get (reply ''Revised.'' (JStr (js ''Replace belt''))) (js ''draft'')
              = Inr (JStr (js ''Replace belt''))"
    by (simp add: reply_def js_def)
  have g0: "js_get (reply ''All normal.'' (JStr [])) (js ''draft'') = Inr (JStr [])"
    by (simp add: reply_def js_def)
  have dr: "draft ?s = JStr (js ''Inspect bearing'')"
    by (simp add: example_chat_def)
  have ne: "JStr (js ''Replace belt'') \<noteq> draft ?s"
    by (simp add: example_chat_def js_def)
  have new: "draft (snd (sendMessage ?s (Fulfilled (reply ''Revised.'' (JStr (js ''Replace belt''))))))
               = JStr (js ''Replace belt'')"
    using t g1 by (simp add: sendMessage_draft draft_after_done js_def)
  have sh: "draft_shown ?s"
    by (simp add: draft_shown_def example_chat_def js_def)
  from draft_changes_only_on_truthy_draft_field
         [of sendMessage ?s "Fulfilled (reply ''Revised.'' (JStr (js ''Replace belt'')))"
             "reply ''All normal.'' (JStr [])" "JStr []" "js ''Inspect bearing''"]
       g0 new ne sh dr
  show ?thesis by simp
qed

lemma handleApprove_Rejected:
  "handleApprove lib s Rejected = (sessionId s, Inr (s\<lparr>loading := False\<rparr>))"
  by (simp add: handleApprove_def handleApprove_start_def handleApprove_done_def)

lemma handleApprove_fst: "fst (handleApprove lib s out) = sessionId s"
  by (simp add: handleApprove_def handleApprove_start_def)

lemma handleApprove_loading:
  "snd (handleApprove lib s out) = Inr s' \<Longrightarrow> \<not> loading s'"
  by (cases out)
     (auto simp: handleApprove_def handleApprove_start_def handleApprove_done_def ebind_eq_Inr)

text \<open>
  C6. When the approval request is rejected, \<^verbatim>\<open>handleApprove\<close> leaves the draft,
  the transcript and the session id as they were, so that approving again sends the
  same session id; and whatever the outcome of the request, the state that results
  has \<open>loading\<close> cleared. A fulfilled request whose response carries a work-order
  id does result in a state, with the draft cleared.
\<close>

theorem failed_approval_keeps_draft:
  "(\<exists>s'. snd (handleApprove lib s Rejected) = Inr s' \<and> draft s' = draft s
         \<and> messages s' = messages s \<and> sessionId s' = sessionId s \<and> \<not> loading s'
         \<and> fst (handleApprove lib s' out) = fst (handleApprove lib s Rejected))
   \<and> (\<forall>out s'. snd (handleApprove lib s out) = Inr s' \<longrightarrow> \<not> loading s')
   \<and> (js_get d (js ''work_order_id'') = Inr (JStr wo) \<longrightarrow>
        (\<exists>s'. snd (handleApprove lib s (Fulfilled d)) = Inr s' \<and> \<not> loading s'
              \<and> draft s' = JStr []))"
proof -
  have A: "\<exists>s'. snd (handleApprove lib s Rejected) = Inr s' \<and> draft s' = draft s
         \<and> messages s' = messages s \<and> sessionId s' = sessionId s \<and> \<not> loading s'
         \<and> fst (handleApprove lib s' out) = fst (handleApprove lib s Rejected)"
    by (simp add: handleApprove_Rejected handleApprove_fst)
  have B: "\<forall>out s'. snd (handleApprove lib s out) = Inr s' \<longrightarrow> \<not> loading s'"
    using handleApprove_loading by blast
  have C: "js_get d (js ''work_order_id'') = Inr (JStr wo) \<longrightarrow>
        (\<exists>s'. snd (handleApprove lib s (Fulfilled d)) = Inr s' \<and> \<not> loading s'
              \<and> draft s' = JStr [])"
    by (simp add: handleApprove_def handleApprove_start_def handleApprove_done_def
        js_to_string_def)
  from A B C show ?thesis by blast
qed

text \<open>A rejected approval of a pending draft, and a fulfilled one.\<close>

theorem failed_approval_keeps_draft_witness:
  "snd (handleApprove example_lib (example_chat [] (JStr (js ''Inspect bearing'')) JNull) Rejected)
     = Inr (example_chat [] (JStr (js ''Inspect bearing'')) JNull)
   \<and> js_get (JObj [(js ''work_order_id'', JStr (js ''WO-123''))]) (js ''work_order_id'')
       = Inr (JStr (js ''WO-123''))
   \<and> (\<exists>s'. snd (handleApprove example_lib (example_chat [] (JStr (js ''Inspect bearing'')) JNull)
                   (Fulfilled (JObj [(js ''work_order_id'', JStr (js ''WO-123''))]))) = Inr s'
           \<and> \<not> loading s' \<and> draft s' = JStr [])"
proof -
  let ?s = "example_chat [] (JStr (js ''Inspect bearing'')) JNull"
  let ?d = "JObj [(js ''work_order_id'', JStr (js ''WO-123''))]"
  have r: "snd (handleApprove example_lib ?s Rejected) = Inr ?s"
    by (simp add: handleApprove_Rejected example_chat_def)
  have g: "js_get ?d (js ''work_order_id'') = Inr (JStr (js ''WO-123''))"
    by simp
  from failed_approval_keeps_draft [of example_lib ?s Rejected ?d "js ''WO-123''"] r g
  show ?thesis by simp
qed

text \<open>
  C4. With an image staged and no text typed, the send button is enabled, yet
  \<^verbatim>\<open>sendMessage\<close> returns at its guard: no message is appended, no request is
  issued (so no default prompt is ever sent) and the state is unchanged.
\<close>

theorem image_only_send_is_dropped:
  "\<not> send_disabled (example_chat [] (JStr []) (JStr (js ''data:image/jpeg;base64,/9j/4AAQSkZJRg=='')))
   \<and> sendMessage (example_chat [] (JStr []) (JStr (js ''data:image/jpeg;base64,/9j/4AAQSkZJRg=='')))
        (Fulfilled (reply ''A photo of a worn belt.'' JUndefined))
     = (None, example_chat [] (JStr []) (JStr (js ''data:image/jpeg;base64,/9j/4AAQSkZJRg=='')))"
  by (simp add: send_disabled_def sendMessage_def sendMessage_start_def example_chat_def
      trim_def js_def)

section \<open>The series merger\<close>

text \<open>
  \<open>array_map\<close> succeeds exactly when the callback succeeds at every index, and then
  yields the results in order.
\<close>

lemma array_map_total:
  assumes "\<And>k. k < length xs \<Longrightarrow> f (xs ! k) (i + k) = Inr (g k)"
  shows "array_map f i xs = Inr (map g [0..<length xs])"
  using assms
proof (induction xs arbitrary: i g)
  case Nil
  then show ?case by simp
next
  case (Cons x xs)
  have h: "f x i = Inr (g 0)"
    using Cons.prems [of 0] by simp
  have "array_map f (Suc i) xs = Inr (map (g \<circ> Suc) [0..<length xs])"
  proof (rule Cons.IH)
    fix k assume "k < length xs"
    then show "f (xs ! k) (Suc i + k) = Inr ((g \<circ> Suc) k)"
      using Cons.prems [of "Suc k"] by simp
  qed
  moreover have "map g [0..<length (x # xs)] = g 0 # map (g \<circ> Suc) [0..<length xs]"
    by (simp add: upt_conv_Cons map_Suc_upt [symmetric] del: upt_Suc)
  ultimately show ?case using h by simp
qed

lemma array_map_InrD:
  "array_map f i xs = Inr ys \<Longrightarrow>
     length ys = length xs \<and> (\<forall>k<length xs. f (xs ! k) (i + k) = Inr (ys ! k))"
proof (induction xs arbitrary: i ys)
  case Nil
  then show ?case by simp
next
  case (Cons x xs)
  from Cons.prems obtain y ys' where y: "f x i = Inr y"
    and ys': "array_map f (Suc i) xs = Inr ys'" and e: "ys = y # ys'"
    by (auto split: sum.splits)
  from Cons.IH [OF ys'] have l: "length ys' = length xs"
    and r: "\<forall>k<length xs. f (xs ! k) (Suc i + k) = Inr (ys' ! k)" by simp_all
  show ?case
  proof (intro conjI allI impI)
    show "length ys = length (x # xs)" using l e by simp
  next
    fix k assume "k < length (x # xs)"
    then show "f ((x # xs) ! k) (i + k) = Inr (ys ! k)"
      using y r e by (cases k) simp_all
  qed
qed

lemma js_get_obj: "js_get d k = Inr v \<Longrightarrow> v \<noteq> JUndefined \<Longrightarrow> \<exists>kvs. d = JObj kvs"
  by (cases d) simp_all

lemma js_index_truthy: "js_truthy v \<Longrightarrow> \<exists>w. js_index v i = Inr w"
  by (cases v) simp_all

lemma isError_total: "\<exists>e. isError (JObj kvs) i = Inr e"
  using js_index_truthy by (auto simp: isError_def)



lemma history_point_eq:
  assumes "js_get d (js ''history_y'') = Inr (JArr hy)" and "isError d i = Inr e"
  shows "history_point d (JStr t) i =
     Inr \<lparr>time = drop 11 (take 16 t),
          history = (if i < length hy then hy ! i else JUndefined),
          history_error =
            (if js_truthy e then (if i < length hy then hy ! i else JUndefined) else JNull),
          forecast = JNull\<rparr>"
  using assms by (simp add: history_point_def js_substring_def)

lemma future_point_eq:
  assumes "js_get d (js ''forecast_y'') = Inr (JArr fy)"
  shows "future_point d (JStr t) j =
     Inr \<lparr>time = drop 11 (take 16 t), history = JNull, history_error = JNull,
          forecast = (if j < length fy then fy ! j else JUndefined)\<rparr>"
  using assms by (simp add: future_point_def js_substring_def)

lemma merge_forecast_general:
  assumes hx: "js_get d (js ''history_x'') = Inr (JArr (map JStr hx))"
    and hy: "js_get d (js ''history_y'') = Inr (JArr hy)"
    and fx: "js_get d (js ''forecast_x'') = Inr (JArr (map JStr fx))"
    and fy: "js_get d (js ''forecast_y'') = Inr (JArr fy)"
  shows "merge_forecast d =
     Inr (map (\<lambda>i. \<lparr>time = drop 11 (take 16 (hx ! i)),
                    history = (if i < length hy then hy ! i else JUndefined),
                    history_error =
                      (if js_truthy (projr (isError d i))
                       then (if i < length hy then hy ! i else JUndefined) else JNull),
                    forecast = JNull\<rparr>) [0..<length hx]
          @ map (\<lambda>j. \<lparr>time = drop 11 (take 16 (fx ! j)), history = JNull,
                      history_error = JNull,
                      forecast = (if j < length fy then fy ! j else JUndefined)\<rparr>)
              [0..<length fx])"
    (is "_ = Inr (map ?h _ @ map ?f _)")
proof -
  obtain kvs where d: "d = JObj kvs"
    using js_get_obj [OF hx] by auto
  have e: "isError d i = Inr (projr (isError d i))" for i
    using isError_total [of kvs i] d by auto
  have "array_map (history_point d) 0 (map JStr hx) = Inr (map ?h [0..<length (map JStr hx)])"
  proof (rule array_map_total)
    fix k assume "k < length (map JStr hx)"
    then show "history_point d (map JStr hx ! k) (0 + k) = Inr (?h k)"
      using history_point_eq [OF hy e, of "hx ! k" k] by simp
  qed
  then have H: "js_map (JArr (map JStr hx)) (history_point d) = Inr (map ?h [0..<length hx])"
    by (simp add: js_map_def)
  have "array_map (future_point d) 0 (map JStr fx) = Inr (map ?f [0..<length (map JStr fx)])"
  proof (rule array_map_total)
    fix k assume "k < length (map JStr fx)"
    then show "future_point d (map JStr fx ! k) (0 + k) = Inr (?f k)"
      using future_point_eq [OF fy, of "fx ! k" k] by simp
  qed
  then have F: "js_map (JArr (map JStr fx)) (future_point d) = Inr (map ?f [0..<length fx])"
    by (simp add: js_map_def)
  show ?thesis
    by (simp only: merge_forecast_def hx fx H F ebind_Inr)
qed

section \<open>Anomaly classification\<close>



lemma js_lt_num: "js_lt lib (JNum a) (JNum b) = Inr (num_lt a b)"
  by (simp add: js_lt_def to_primitive_def to_number_def)


lemma anomaly_of_InrD:
  assumes "anomaly_of lib thr tsa rva sc i = Inr p"
  shows "score p = sc
     \<and> (\<exists>b. js_lt lib sc thr = Inr b \<and> status p = (if b then js ''Anomaly'' else js ''Normal''))
     \<and> (\<exists>ts. js_index tsa i = Inr ts \<and> dateStr p = ts
            \<and> (\<not> js_truthy ts \<longrightarrow> a_time p = JNum (Fin (real i))))
     \<and> (\<exists>rv. js_index rva i = Inr rv \<and> rawValue p = js_or rv (JNum (Fin 0)))"
proof -
  from assms obtain ts tm rv b where
    ts: "js_index tsa i = Inr ts"
    and tm: "(if js_truthy ts then ebind (new_Date lib ts) (\<lambda>dt. Inr (getTime dt))
              else Inr (JNum (Fin (real i)))) = Inr tm"
    and rv: "js_index rva i = Inr rv"
    and b: "js_lt lib sc thr = Inr b"
    and p: "p = \<lparr>a_time = tm, score = sc, rawValue = js_or rv (JNum (Fin 0)),
                 status = (if b then js ''Anomaly'' else js ''Normal''), dateStr = ts\<rparr>"
    unfolding anomaly_of_def ebind_eq_Inr by blast
  have "\<not> js_truthy ts \<longrightarrow> tm = JNum (Fin (real i))"
    using tm by (cases "js_truthy ts") simp_all
  with ts rv b p show ?thesis by simp
qed

lemma anomalies_of_InrD:
  assumes "anomalies_of lib d = Inr (pts, thr)"
  shows "js_get d (js ''threshold'') = Inr thr
     \<and> (\<exists>scores ts0 rv0. js_get d (js ''scores'') = Inr (JArr scores)
          \<and> js_get d (js ''timestamps'') = Inr ts0 \<and> js_get d (js ''raw_values'') = Inr rv0
          \<and> length pts = length scores
          \<and> (\<forall>i<length scores.
                anomaly_of lib thr (js_or ts0 (JArr [])) (js_or rv0 (JArr [])) (scores ! i) i
                  = Inr (pts ! i)))"
proof -
  from assms obtain ts0 rv0 sv where
    t: "js_get d (js ''threshold'') = Inr thr" and ts: "js_get d (js ''timestamps'') = Inr ts0"
    and rv: "js_get d (js ''raw_values'') = Inr rv0" and sc: "js_get d (js ''scores'') = Inr sv"
    and m: "js_map sv (anomaly_of lib thr (js_or ts0 (JArr [])) (js_or rv0 (JArr []))) = Inr pts"
    by (auto simp: anomalies_of_def ebind_eq_Inr)
  from m obtain scores where sv: "sv = JArr scores"
    and am: "array_map (anomaly_of lib thr (js_or ts0 (JArr [])) (js_or rv0 (JArr []))) 0 scores
               = Inr pts"
    by (cases sv) (simp_all add: js_map_def)
  from array_map_InrD [OF am] t ts rv sc sv show ?thesis by simp
qed

lemma fetchCharts_done_ok:
  assumes "merge_forecast fd = Inr fpts" and "anomalies_of lib ad = Inr (apts, thr)"
  shows "fetchCharts_done lib tgt (Fulfilled fd) (Fulfilled ad) (Fulfilled imd) s =
     (case importance_top lib tgt imd of
        Inr (Some tf) \<Rightarrow>
          s\<lparr>forecastData := fpts, anomalyData := apts, threshold := thr, importanceData := tf\<rparr>
      | _ \<Rightarrow> s\<lparr>forecastData := fpts, anomalyData := apts, threshold := thr\<rparr>)"
  using assms by (simp add: fetchCharts_done_def split: sum.splits option.splits)

section \<open>The merged series and the classification of a tick\<close>

lemma map_upt_nth: "map (\<lambda>i. g (xs ! i)) [0..<length xs] = map g xs"
  by (rule nth_equalityI) simp_all

lemma js_ne: "js ''Anomaly'' \<noteq> js ''Normal''"
  by (simp add: js_def)

lemma isError_flag:
  assumes "js_get d (js ''history_flags'') = Inr hf" and "isError d i = Inr e"
  shows "js_truthy e \<longleftrightarrow> js_truthy hf \<and> (\<exists>v. js_index hf i = Inr v \<and> js_truthy v)"
  using assms by (cases "js_truthy hf") (auto simp: isError_def)

text \<open>
  C1. Let a forecast response have the timestamp arrays \<open>history_x\<close> and \<open>forecast_x\<close>
  (strings), value arrays \<open>history_y\<close> and \<open>forecast_y\<close> of the same lengths, whose
  history values are not \<^verbatim>\<open>null\<close> (they are numbers), and any or no \<open>history_flags\<close>.
  Then the merge succeeds and yields one point per timestamp, the history points
  first and the forecast points after them, each in the order of its array (the
  time labels are those of \<open>history_x @ forecast_x\<close>: nothing is dropped or reordered).
  A history point carries its value in \<open>history\<close> and \<^verbatim>\<open>null\<close> in \<open>forecast\<close>. Its
  \<open>history_error\<close> equals \<open>history\<close> exactly when its error flag is set, and is
  \<^verbatim>\<open>null\<close> otherwise. The error flag of point \<open>i\<close> is read from the response: with
  \<open>hf\<close> the \<open>history_flags\<close> field, it is set when \<open>hf\<close> is truthy and \<open>hf[i]\<close> is
  truthy; for an array of booleans that is when entry \<open>i\<close> exists and is true, and
  without the field no flag is set. A forecast point carries its value in
  \<open>forecast\<close> and \<^verbatim>\<open>null\<close> in \<open>history\<close> and \<open>history_error\<close>.
\<close>

theorem merged_series_is_history_then_forecast:
  assumes hx: "js_get d (js ''history_x'') = Inr (JArr (map JStr hx))"
    and hy: "js_get d (js ''history_y'') = Inr (JArr hy)" and lh: "length hy = length hx"
    and fx: "js_get d (js ''forecast_x'') = Inr (JArr (map JStr fx))"
    and fy: "js_get d (js ''forecast_y'') = Inr (JArr fy)" and lf: "length fy = length fx"
    and nn: "JNull \<notin> set hy"
  shows "\<exists>pts hf. merge_forecast d = Inr pts
     \<and> js_get d (js ''history_flags'') = Inr hf
     \<and> length pts = length hx + length fx
     \<and> map time pts = map (\<lambda>t. drop 11 (take 16 t)) (hx @ fx)
     \<and> (\<forall>i<length hx.
           history (pts ! i) = hy ! i \<and> forecast (pts ! i) = JNull
           \<and> (\<exists>e. isError d i = Inr e
                 \<and> history_error (pts ! i) = (if js_truthy e then hy ! i else JNull)
                 \<and> (history_error (pts ! i) = history (pts ! i) \<longleftrightarrow> js_truthy e))
           \<and> (history_error (pts ! i) = history (pts ! i) \<longleftrightarrow>
                 js_truthy hf \<and> (\<exists>v. js_index hf i = Inr v \<and> js_truthy v))
           \<and> (history_error (pts ! i) \<noteq> history (pts ! i) \<longrightarrow> history_error (pts ! i) = JNull)
           \<and> (\<forall>fl. hf = JArr fl \<longrightarrow>
                 (history_error (pts ! i) = history (pts ! i) \<longleftrightarrow>
                    i < length fl \<and> js_truthy (fl ! i)))
           \<and> (\<forall>bs. hf = JArr (map JBool bs) \<longrightarrow>
                 (history_error (pts ! i) = history (pts ! i) \<longleftrightarrow> i < length bs \<and> bs ! i))
           \<and> (hf = JUndefined \<longrightarrow> history_error (pts ! i) = JNull))
     \<and> (\<forall>j<length fx.
           history (pts ! (length hx + j)) = JNull
           \<and> history_error (pts ! (length hx + j)) = JNull
           \<and> forecast (pts ! (length hx + j)) = fy ! j)"
proof -
  let ?h = "\<lambda>i. \<lparr>time = drop 11 (take 16 (hx ! i)),
                    history = (if i < length hy then hy ! i else JUndefined),
                    history_error =
                      (if js_truthy (projr (isError d i))
                       then (if i < length hy then hy ! i else JUndefined) else JNull),
                    forecast = JNull\<rparr>"
  let ?f = "\<lambda>j. \<lparr>time = drop 11 (take 16 (fx ! j)), history = JNull,
                      history_error = JNull,
                      forecast = (if j < length fy then fy ! j else JUndefined)\<rparr>"
  let ?pts = "map ?h [0..<length hx] @ map ?f [0..<length fx]"
  have m: "merge_forecast d = Inr ?pts"
    by (rule merge_forecast_general [OF hx hy fx fy])
  obtain kvs where d: "d = JObj kvs"
    using js_get_obj [OF hx] by auto
  obtain hf where hf: "js_get d (js ''history_flags'') = Inr hf"
    using d by simp
  have e: "isError d i = Inr (projr (isError d i))" for i
    using isError_total [of kvs i] d by auto
  have len: "length ?pts = length hx + length fx" by simp
  have tm: "map time ?pts = map (\<lambda>t. drop 11 (take 16 t)) (hx @ fx)"
    using map_upt_nth [of "\<lambda>t. drop 11 (take 16 t)" hx]
      map_upt_nth [of "\<lambda>t. drop 11 (take 16 t)" fx]
    by (simp add: o_def)
  have H: "history (?pts ! i) = hy ! i \<and> forecast (?pts ! i) = JNull
           \<and> (\<exists>e. isError d i = Inr e
                 \<and> history_error (?pts ! i) = (if js_truthy e then hy ! i else JNull)
                 \<and> (history_error (?pts ! i) = history (?pts ! i) \<longleftrightarrow> js_truthy e))
           \<and> (history_error (?pts ! i) = history (?pts ! i) \<longleftrightarrow>
                 js_truthy hf \<and> (\<exists>v. js_index hf i = Inr v \<and> js_truthy v))
           \<and> (history_error (?pts ! i) \<noteq> history (?pts ! i) \<longrightarrow>
                 history_error (?pts ! i) = JNull)
           \<and> (\<forall>fl. hf = JArr fl \<longrightarrow>
                 (history_error (?pts ! i) = history (?pts ! i) \<longleftrightarrow>
                    i < length fl \<and> js_truthy (fl ! i)))
           \<and> (\<forall>bs. hf = JArr (map JBool bs) \<longrightarrow>
                 (history_error (?pts ! i) = history (?pts ! i) \<longleftrightarrow> i < length bs \<and> bs ! i))
           \<and> (hf = JUndefined \<longrightarrow> history_error (?pts ! i) = JNull)"
    if i: "i < length hx" for i
  proof -
    let ?e = "projr (isError d i)"
    have p: "?pts ! i = ?h i" using i by (simp add: nth_append)
    have v: "hy ! i \<noteq> JNull" using nn i lh by (metis nth_mem)
    have a: "history (?h i) = hy ! i" using i lh by simp
    have b: "forecast (?h i) = JNull" by simp
    have c: "history_error (?h i) = (if js_truthy ?e then hy ! i else JNull)"
      using i lh by simp
    have q: "history_error (?h i) = history (?h i) \<longleftrightarrow> js_truthy ?e"
      unfolding a c using v by (cases "js_truthy ?e") auto
    have fl: "js_truthy ?e \<longleftrightarrow> js_truthy hf \<and> (\<exists>v. js_index hf i = Inr v \<and> js_truthy v)"
      by (rule isError_flag [OF hf e])
    have 1: "\<exists>e. isError d i = Inr e
                 \<and> history_error (?h i) = (if js_truthy e then hy ! i else JNull)
                 \<and> (history_error (?h i) = history (?h i) \<longleftrightarrow> js_truthy e)"
      using c q e [of i] by blast
    have 2: "history_error (?h i) = history (?h i) \<longleftrightarrow>
                 js_truthy hf \<and> (\<exists>v. js_index hf i = Inr v \<and> js_truthy v)"
      using q fl by simp
    have 3: "history_error (?h i) \<noteq> history (?h i) \<longrightarrow> history_error (?h i) = JNull"
      using q c by (cases "js_truthy ?e") simp_all
    have 4: "history_error (?h i) = history (?h i) \<longleftrightarrow> i < length fl \<and> js_truthy (fl ! i)"
      if "hf = JArr fl" for fl
      unfolding 2 that by simp
    have 5: "history_error (?h i) = history (?h i) \<longleftrightarrow> i < length bs \<and> bs ! i"
      if "hf = JArr (map JBool bs)" for bs
      unfolding 4 [OF that] by auto
    have 6: "history_error (?h i) = JNull" if "hf = JUndefined"
      using 2 3 that by auto
    from a b 1 2 3 4 5 6 show ?thesis
      unfolding p by blast
  qed
  have F: "history (?pts ! (length hx + j)) = JNull
           \<and> history_error (?pts ! (length hx + j)) = JNull
           \<and> forecast (?pts ! (length hx + j)) = fy ! j"
    if j: "j < length fx" for j
  proof -
    have "?pts ! (length hx + j) = ?f j" using j by (simp add: nth_append)
    then show ?thesis using j lf by simp
  qed
  from m hf len tm H F show ?thesis by blast
qed


text \<open>
  Two history points, the first flagged and the second not, and one forecast point.
\<close>

theorem merged_series_is_history_then_forecast_witness:
  "js_get (forecast_response
        [JStr (js ''2024-05-01T10:00:00''), JStr (js ''2024-05-01T10:05:00'')]
        [JNum (Fin 1.5), JNum (Fin 2.5)] (JArr [JBool True, JBool False])
        [JStr (js ''2024-05-01T10:10:00'')] [JNum (Fin 3)]) (js ''history_x'')
     = Inr (JArr (map JStr [js ''2024-05-01T10:00:00'', js ''2024-05-01T10:05:00'']))
   \<and> js_get (forecast_response
        [JStr (js ''2024-05-01T10:00:00''), JStr (js ''2024-05-01T10:05:00'')]
        [JNum (Fin 1.5), JNum (Fin 2.5)] (JArr [JBool True, JBool False])
        [JStr (js ''2024-05-01T10:10:00'')] [JNum (Fin 3)]) (js ''history_flags'')
     = Inr (JArr (map JBool [True, False]))
   \<and> length [JNum (Fin 1.5), JNum (Fin 2.5)]
       = length [js ''2024-05-01T10:00:00'', js ''2024-05-01T10:05:00'']
   \<and> JNull \<notin> set [JNum (Fin 1.5), JNum (Fin 2.5)]
   \<and> (\<exists>pts. merge_forecast (forecast_response
        [JStr (js ''2024-05-01T10:00:00''), JStr (js ''2024-05-01T10:05:00'')]
        [JNum (Fin 1.5), JNum (Fin 2.5)] (JArr [JBool True, JBool False])
        [JStr (js ''2024-05-01T10:10:00'')] [JNum (Fin 3)]) = Inr pts
      \<and> length pts = 3
      \<and> history (pts ! 0) = JNum (Fin 1.5) \<and> history_error (pts ! 0) = history (pts ! 0)
      \<and> history (pts ! 1) = JNum (Fin 2.5) \<and> history_error (pts ! 1) = JNull
      \<and> forecast (pts ! 1) = JNull \<and> history (pts ! 2) = JNull)"
proof -
  let ?d = "forecast_response
        [JStr (js ''2024-05-01T10:00:00''), JStr (js ''2024-05-01T10:05:00'')]
        [JNum (Fin 1.5), JNum (Fin 2.5)] (JArr [JBool True, JBool False])
        [JStr (js ''2024-05-01T10:10:00'')] [JNum (Fin 3)]"
  let ?hx = "[js ''2024-05-01T10:00:00'', js ''2024-05-01T10:05:00'']"
  let ?hy = "[JNum (Fin 1.5), JNum (Fin 2.5)]"
  let ?fx = "[js ''2024-05-01T10:10:00'']"
  let ?fy = "[JNum (Fin 3)]"
  have h1: "js_get ?d (js ''history_x'') = Inr (JArr (map JStr ?hx))"
    by (simp add: forecast_response_def js_def)
  have h2: "js_get ?d (js ''history_y'') = Inr (JArr ?hy)"
    by (simp add: forecast_response_def js_def)
  have h3: "js_get ?d (js ''forecast_x'') = Inr (JArr (map JStr ?fx))"
    by (simp add: forecast_response_def js_def)
  have h4: "js_get ?d (js ''forecast_y'') = Inr (JArr ?fy)"
    by (simp add: forecast_response_def js_def)
  have h5: "js_get ?d (js ''history_flags'') = Inr (JArr (map JBool [True, False]))"
    by (simp add: forecast_response_def js_def)
  have l1: "length ?hy = length ?hx" by simp
  have l2: "length ?fy = length ?fx" by simp
  have nn: "JNull \<notin> set ?hy" by simp
  from merged_series_is_history_then_forecast [OF h1 h2 l1 h3 h4 l2 nn]
  obtain pts hf where m: "merge_forecast ?d = Inr pts"
    and hf: "js_get ?d (js ''history_flags'') = Inr hf"
    and len: "length pts = length ?hx + length ?fx"
    and tm: "map time pts = map (\<lambda>t. drop 11 (take 16 t)) (?hx @ ?fx)"
    and H: "\<forall>i<length ?hx.
           history (pts ! i) = ?hy ! i \<and> forecast (pts ! i) = JNull
           \<and> (\<exists>e. isError ?d i = Inr e
                 \<and> history_error (pts ! i) = (if js_truthy e then ?hy ! i else JNull)
                 \<and> (history_error (pts ! i) = history (pts ! i) \<longleftrightarrow> js_truthy e))
           \<and> (history_error (pts ! i) = history (pts ! i) \<longleftrightarrow>
                 js_truthy hf \<and> (\<exists>v. js_index hf i = Inr v \<and> js_truthy v))
           \<and> (history_error (pts ! i) \<noteq> history (pts ! i) \<longrightarrow> history_error (pts ! i) = JNull)
           \<and> (\<forall>fl. hf = JArr fl \<longrightarrow>
                 (history_error (pts ! i) = history (pts ! i) \<longleftrightarrow>
                    i < length fl \<and> js_truthy (fl ! i)))
           \<and> (\<forall>bs. hf = JArr (map JBool bs) \<longrightarrow>
                 (history_error (pts ! i) = history (pts ! i) \<longleftrightarrow> i < length bs \<and> bs ! i))
           \<and> (hf = JUndefined \<longrightarrow> history_error (pts ! i) = JNull)"
    and F: "\<forall>j<length ?fx.
           history (pts ! (length ?hx + j)) = JNull
           \<and> history_error (pts ! (length ?hx + j)) = JNull
           \<and> forecast (pts ! (length ?hx + j)) = ?fy ! j"
    by (elim exE conjE) (rule that; assumption)
  have hf': "hf = JArr (map JBool [True, False])"
    using hf h5 by simp
  have a: "length pts = 3" using len by simp
  have i0: "0 < length ?hx" and i1: "1 < length ?hx" by simp_all
  note B0 = H [rule_format, OF i0] and B1 = H [rule_format, OF i1]
  note c7 = conjunct2 [THEN conjunct2, THEN conjunct2, THEN conjunct2, THEN conjunct2,
      THEN conjunct2, THEN conjunct1]
  note c5 = conjunct2 [THEN conjunct2, THEN conjunct2, THEN conjunct2, THEN conjunct1]
  have b0: "history_error (pts ! 0) = history (pts ! 0)"
    using c7 [OF B0, rule_format, OF hf'] by simp
  have b1: "history_error (pts ! 1) \<noteq> history (pts ! 1)"
    using c7 [OF B1, rule_format, OF hf'] by simp
  have b: "history (pts ! 0) = JNum (Fin 1.5) \<and> history_error (pts ! 0) = history (pts ! 0)"
    using conjunct1 [OF B0] b0 by simp
  have c: "history (pts ! 1) = JNum (Fin 2.5) \<and> history_error (pts ! 1) = JNull
           \<and> forecast (pts ! 1) = JNull"
    using conjunct1 [OF B1] c5 [OF B1, rule_format, OF b1] conjunct1 [OF conjunct2 [OF B1]] by simp
  have e: "history (pts ! 2) = JNull"
    using F [rule_format, of 0] by (simp add: numeral_2_eq_2)
  have "\<exists>pts. merge_forecast ?d = Inr pts
      \<and> length pts = 3
      \<and> history (pts ! 0) = JNum (Fin 1.5) \<and> history_error (pts ! 0) = history (pts ! 0)
      \<and> history (pts ! 1) = JNum (Fin 2.5) \<and> history_error (pts ! 1) = JNull
      \<and> forecast (pts ! 1) = JNull \<and> history (pts ! 2) = JNull"
    using m a b c e by (intro exI [of _ pts]) simp
  with h1 h5 l1 nn show ?thesis by (intro conjI)
qed

text \<open>
  C2. When a tick gets as far as the anomaly part and that part raises no exception,
  the anomaly points stored are those computed from the response, the threshold
  stored is the \<open>threshold\<close> field of that response, there is one point per score,
  and the status of each point is \<^verbatim>\<open>Anomaly\<close> exactly when its score is less than
  that threshold (\<^verbatim>\<open>score < threshold\<close>, which for two finite numbers is the strict
  order of the reals) and \<^verbatim>\<open>Normal\<close> exactly when it is not. The state before the
  tick, and with it the threshold of an earlier refresh, is arbitrary.
\<close>

theorem anomaly_status_uses_threshold_of_same_response:
  assumes mf: "merge_forecast fd = Inr fpts"
    and an: "anomalies_of lib ad = Inr (pts, thr)"
    and s': "s' = fetchCharts_done lib tgt (Fulfilled fd) (Fulfilled ad) (Fulfilled imd) s"
  shows "anomalyData s' = pts \<and> threshold s' = thr
     \<and> js_get ad (js ''threshold'') = Inr thr
     \<and> (\<exists>scores. js_get ad (js ''scores'') = Inr (JArr scores) \<and> length pts = length scores
          \<and> (\<forall>i<length scores.
                score (pts ! i) = scores ! i
                \<and> (status (pts ! i) = js ''Anomaly'' \<longleftrightarrow> js_lt lib (scores ! i) thr = Inr True)
                \<and> (status (pts ! i) = js ''Normal'' \<longleftrightarrow> js_lt lib (scores ! i) thr = Inr False)
                \<and> (\<forall>a b. scores ! i = JNum (Fin a) \<and> thr = JNum (Fin b) \<longrightarrow>
                       (status (pts ! i) = js ''Anomaly'' \<longleftrightarrow> a < b))))"
proof -
  have st: "anomalyData s' = pts \<and> threshold s' = thr"
    unfolding s' fetchCharts_done_ok [OF mf an]
    by (simp split: sum.splits option.splits)
  from anomalies_of_InrD [OF an] obtain scores ts0 rv0 where
    th: "js_get ad (js ''threshold'') = Inr thr"
    and sc: "js_get ad (js ''scores'') = Inr (JArr scores)"
    and len: "length pts = length scores"
    and pt: "\<forall>i<length scores.
                anomaly_of lib thr (js_or ts0 (JArr [])) (js_or rv0 (JArr [])) (scores ! i) i
                  = Inr (pts ! i)"
    by blast
  have P: "score (pts ! i) = scores ! i
                \<and> (status (pts ! i) = js ''Anomaly'' \<longleftrightarrow> js_lt lib (scores ! i) thr = Inr True)
                \<and> (status (pts ! i) = js ''Normal'' \<longleftrightarrow> js_lt lib (scores ! i) thr = Inr False)
                \<and> (\<forall>a b. scores ! i = JNum (Fin a) \<and> thr = JNum (Fin b) \<longrightarrow>
                       (status (pts ! i) = js ''Anomaly'' \<longleftrightarrow> a < b))"
    if i: "i < length scores" for i
  proof -
    from pt i have "anomaly_of lib thr (js_or ts0 (JArr [])) (js_or rv0 (JArr [])) (scores ! i) i
                  = Inr (pts ! i)" by blast
    from anomaly_of_InrD [OF this] obtain b where
      a: "score (pts ! i) = scores ! i" and b: "js_lt lib (scores ! i) thr = Inr b"
      and c: "status (pts ! i) = (if b then js ''Anomaly'' else js ''Normal'')"
      by blast
    have 1: "status (pts ! i) = js ''Anomaly'' \<longleftrightarrow> js_lt lib (scores ! i) thr = Inr True"
      using b c js_ne by (cases b) simp_all
    have 2: "status (pts ! i) = js ''Normal'' \<longleftrightarrow> js_lt lib (scores ! i) thr = Inr False"
      using b c js_ne by (cases b) simp_all
    have 3: "status (pts ! i) = js ''Anomaly'' \<longleftrightarrow> x < y"
      if "scores ! i = JNum (Fin x) \<and> thr = JNum (Fin y)" for x y
      using 1 that by (simp add: js_lt_num)
    from a 1 2 3 show ?thesis by blast
  qed
  from st th sc len P show ?thesis by blast
qed

lemma example_anomalies:
  "anomalies_of example_lib
     (anomaly_response (JNum (Fin 0.5)) JUndefined JUndefined
        (JArr [JNum (Fin 0.7), JNum (Fin 0.2)]))
   = Inr ([\<lparr>a_time = JNum (Fin 0), score = JNum (Fin 0.7), rawValue = JNum (Fin 0),
             status = js ''Normal'', dateStr = JUndefined\<rparr>,
           \<lparr>a_time = JNum (Fin 1), score = JNum (Fin 0.2), rawValue = JNum (Fin 0),
             status = js ''Anomaly'', dateStr = JUndefined\<rparr>],
          JNum (Fin 0.5))"
  by (simp add: anomalies_of_def anomaly_response_def js_map_def anomaly_of_def js_or_def
      js_lt_num js_def)

lemma empty_merge: "merge_forecast (forecast_response [] [] JUndefined [] []) = Inr []"
  by (simp add: merge_forecast_def forecast_response_def js_map_def js_def)

text \<open>
  The earlier threshold is 0.9, the response's threshold 0.5: the score 0.7 is
  normal, the score 0.2 an anomaly.
\<close>

theorem anomaly_status_uses_threshold_of_same_response_witness:
  "merge_forecast (forecast_response [] [] JUndefined [] []) = Inr []
   \<and> threshold (example_dashboard\<lparr>threshold := JNum (Fin 0.9)\<rparr>) = JNum (Fin 0.9)
   \<and> (\<exists>pts. anomalies_of example_lib
             (anomaly_response (JNum (Fin 0.5)) JUndefined JUndefined
                (JArr [JNum (Fin 0.7), JNum (Fin 0.2)])) = Inr (pts, JNum (Fin 0.5))
          \<and> anomalyData (fetchCharts_done example_lib (js ''z_rms'')
               (Fulfilled (forecast_response [] [] JUndefined [] []))
               (Fulfilled (anomaly_response (JNum (Fin 0.5)) JUndefined JUndefined
                  (JArr [JNum (Fin 0.7), JNum (Fin 0.2)])))
               (Fulfilled (JObj []))
               (example_dashboard\<lparr>threshold := JNum (Fin 0.9)\<rparr>)) = pts
          \<and> map status pts = [js ''Normal'', js ''Anomaly''])"
proof -
  let ?ad = "anomaly_response (JNum (Fin 0.5)) JUndefined JUndefined
                (JArr [JNum (Fin 0.7), JNum (Fin 0.2)])"
  let ?pts = "[\<lparr>a_time = JNum (Fin 0), score = JNum (Fin 0.7), rawValue = JNum (Fin 0),
             status = js ''Normal'', dateStr = JUndefined\<rparr>,
           \<lparr>a_time = JNum (Fin 1), score = JNum (Fin 0.2), rawValue = JNum (Fin 0),
             status = js ''Anomaly'', dateStr = JUndefined\<rparr>]"
  have t: "threshold (example_dashboard\<lparr>threshold := JNum (Fin 0.9)\<rparr>) = JNum (Fin 0.9)"
    by simp
  from anomaly_status_uses_threshold_of_same_response
         [OF empty_merge example_anomalies refl,
          of "js ''z_rms''" "JObj []" "example_dashboard\<lparr>threshold := JNum (Fin 0.9)\<rparr>"]
  have b: "anomalyData (fetchCharts_done example_lib (js ''z_rms'')
               (Fulfilled (forecast_response [] [] JUndefined [] []))
               (Fulfilled ?ad) (Fulfilled (JObj []))
               (example_dashboard\<lparr>threshold := JNum (Fin 0.9)\<rparr>)) = ?pts"
    by (rule conjunct1)
  have c: "map status ?pts = [js ''Normal'', js ''Anomaly'']" by simp
  show ?thesis
    by (intro conjI exI [of _ ?pts]) (rule empty_merge t example_anomalies b c)+
qed

section \<open>Staleness\<close>

lemma new_Date_string: "new_Date lib (JStr str) = Inr (date_parse lib str)"
  by (simp add: new_Date_def to_primitive_def)

text \<open>
  C5, as the code has it. \<^verbatim>\<open>isStale\<close> is false when there is no summary, and when the
  summary has no (or a falsy) \<open>data_timestamp\<close>. For a timestamp string it is false
  when the string does not parse, and otherwise true exactly when the number of
  whole minutes between the timestamp and now exceeds 30, that is, when at least 31
  minutes have passed.
\<close>

theorem stale_after_31_whole_minutes:
  "(\<not> js_truthy sm \<longrightarrow> isStale lib now sm = Inr False)
   \<and> (js_get sm (js ''data_timestamp'') = Inr ts \<and> \<not> js_truthy ts \<longrightarrow>
        isStale lib now sm = Inr False)
   \<and> (js_get sm (js ''data_timestamp'') = Inr (JStr str) \<and> str \<noteq> [] \<longrightarrow>
        isStale lib now sm =
          Inr (case date_parse lib str of None \<Rightarrow> False | Some t \<Rightarrow> 31 * 60000 \<le> now - t))"
proof -
  have A: "\<not> js_truthy sm \<longrightarrow> isStale lib now sm = Inr False"
    by (simp add: isStale_def)
  have B: "js_get sm (js ''data_timestamp'') = Inr ts \<and> \<not> js_truthy ts \<longrightarrow>
        isStale lib now sm = Inr False"
    by (simp add: isStale_def)
  have d: "(30 < (now - t) div 60000) = (31 * 60000 \<le> now - t)" for t :: int
    by linarith
  have C: "js_get sm (js ''data_timestamp'') = Inr (JStr str) \<and> str \<noteq> [] \<longrightarrow>
        isStale lib now sm =
          Inr (case date_parse lib str of None \<Rightarrow> False | Some t \<Rightarrow> 31 * 60000 \<le> now - t)"
  proof (intro impI, elim conjE)
    assume g: "js_get sm (js ''data_timestamp'') = Inr (JStr str)" and ne: "str \<noteq> []"
    then obtain kvs where "sm = JObj kvs" using js_get_obj by blast
    then have "js_truthy sm" by simp
    with g ne show "isStale lib now sm =
          Inr (case date_parse lib str of None \<Rightarrow> False | Some t \<Rightarrow> 31 * 60000 \<le> now - t)"
      by (simp add: isStale_def new_Date_string d split: option.splits)
  qed
  from A B C show ?thesis by blast
qed

lemma epoch_parse: "date_parse example_lib (js ''1970-01-01T00:00:00.000Z'') = Some 0"
  by (simp add: example_lib_def)

lemma epoch_summary:
  "js_get (JObj [(js ''data_timestamp'', JStr (js ''1970-01-01T00:00:00.000Z''))])
     (js ''data_timestamp'') = Inr (JStr (js ''1970-01-01T00:00:00.000Z''))"
  by simp

text \<open>
  A reading 31 minutes old is stale, one 10 minutes old is not, and a summary
  without timestamp, or no summary, is not.
\<close>

theorem stale_after_31_whole_minutes_witness:
  "js_get (JObj [(js ''data_timestamp'', JStr (js ''1970-01-01T00:00:00.000Z''))])
     (js ''data_timestamp'') = Inr (JStr (js ''1970-01-01T00:00:00.000Z''))
   \<and> js ''1970-01-01T00:00:00.000Z'' \<noteq> []
   \<and> isStale example_lib (31 * 60000)
        (JObj [(js ''data_timestamp'', JStr (js ''1970-01-01T00:00:00.000Z''))]) = Inr True
   \<and> isStale example_lib (10 * 60000)
        (JObj [(js ''data_timestamp'', JStr (js ''1970-01-01T00:00:00.000Z''))]) = Inr False
   \<and> js_get (JObj []) (js ''data_timestamp'') = Inr JUndefined \<and> \<not> js_truthy JUndefined
   \<and> isStale example_lib (31 * 60000) (JObj []) = Inr False
   \<and> \<not> js_truthy JNull
   \<and> isStale example_lib (31 * 60000) JNull = Inr False"
proof -
  let ?sm = "JObj [(js ''data_timestamp'', JStr (js ''1970-01-01T00:00:00.000Z''))]"
  have ne: "js ''1970-01-01T00:00:00.000Z'' \<noteq> []" by (simp add: js_def)
  have g0: "js_get (JObj []) (js ''data_timestamp'') = Inr JUndefined \<and> \<not> js_truthy JUndefined"
    by simp
  have n: "\<not> js_truthy JNull" by simp
  from stale_after_31_whole_minutes [of ?sm example_lib "31 * 60000" JUndefined
      "js ''1970-01-01T00:00:00.000Z''"] epoch_summary ne
  have a: "isStale example_lib (31 * 60000) ?sm = Inr True"
    by (simp add: epoch_parse)
  from stale_after_31_whole_minutes [of ?sm example_lib "10 * 60000" JUndefined
      "js ''1970-01-01T00:00:00.000Z''"] epoch_summary ne
  have b: "isStale example_lib (10 * 60000) ?sm = Inr False"
    by (simp add: epoch_parse)
  from stale_after_31_whole_minutes [of "JObj []" example_lib "31 * 60000" JUndefined] g0
  have c: "isStale example_lib (31 * 60000) (JObj []) = Inr False"
    by blast
  from stale_after_31_whole_minutes [of JNull example_lib "31 * 60000"] n
  have d: "isStale example_lib (31 * 60000) JNull = Inr False"
    by blast
  show ?thesis
    by (intro conjI) (rule epoch_summary ne a b c d n conjunct1 [OF g0] conjunct2 [OF g0])+
qed

text \<open>
  A reading that is 30 minutes and 30 seconds old is more than 30 minutes old, but
  \<^verbatim>\<open>isStale\<close> is false: the difference is floored to 30 whole minutes first.
\<close>

theorem stale_after_30_minutes_counterexample:
  "date_parse example_lib (js ''1970-01-01T00:00:00.000Z'') = Some 0
   \<and> 30 * 60000 < (1830000 :: int) - 0
   \<and> isStale example_lib 1830000
        (JObj [(js ''data_timestamp'', JStr (js ''1970-01-01T00:00:00.000Z''))]) = Inr False"
  by (simp add: isStale_def new_Date_def to_primitive_def example_lib_def js_def)

section \<open>Malformed responses\<close>











section \<open>Polling ticks\<close>

lemma fetchCharts_done_rejected:
  "fr = Rejected \<or> ar = Rejected \<or> ir = Rejected \<Longrightarrow> fetchCharts_done lib tgt fr ar ir s = s"
  by (cases fr; cases ar; cases ir) (simp_all add: fetchCharts_done_def)

lemma fetchCharts_done_merge_failed:
  "merge_forecast fd = Inl e \<Longrightarrow>
     fetchCharts_done lib tgt (Fulfilled fd) (Fulfilled ad) (Fulfilled imd) s = s"
  by (simp add: fetchCharts_done_def)

lemma fetchCharts_done_anomalies_failed:
  "merge_forecast fd = Inr fpts \<Longrightarrow> anomalies_of lib ad = Inl e \<Longrightarrow>
     fetchCharts_done lib tgt (Fulfilled fd) (Fulfilled ad) (Fulfilled imd) s
       = s\<lparr>forecastData := fpts\<rparr>"
  by (simp add: fetchCharts_done_def)

lemma fetchCharts_done_forecast:
  assumes "merge_forecast fd = Inr fpts"
  shows "forecastData (fetchCharts_done lib tgt (Fulfilled fd) (Fulfilled ad) (Fulfilled imd) s)
           = fpts"
proof (cases "anomalies_of lib ad")
  case (Inl e)
  then show ?thesis by (simp add: fetchCharts_done_anomalies_failed [OF assms])
next
  case (Inr r)
  then obtain apts thr where "anomalies_of lib ad = Inr (apts, thr)" by (cases r) simp
  from fetchCharts_done_ok [OF assms this] show ?thesis
    by (simp split: sum.splits option.splits)
qed

lemma fetchCharts_done_summary:
  "summary (fetchCharts_done lib tgt fr ar ir s) = summary s"
proof (cases "fr = Rejected \<or> ar = Rejected \<or> ir = Rejected")
  case True
  then show ?thesis by (simp add: fetchCharts_done_rejected)
next
  case False
  then obtain fd ad imd where f: "fr = Fulfilled fd" "ar = Fulfilled ad" "ir = Fulfilled imd"
    by (cases fr; cases ar; cases ir) simp_all
  show ?thesis
  proof (cases "merge_forecast fd")
    case (Inl e)
    then show ?thesis by (simp add: f fetchCharts_done_merge_failed)
  next
    case m: (Inr fpts)
    show ?thesis
    proof (cases "anomalies_of lib ad")
      case (Inl e)
      then show ?thesis by (simp add: f fetchCharts_done_anomalies_failed [OF m])
    next
      case (Inr r)
      then obtain apts thr where "anomalies_of lib ad = Inr (apts, thr)" by (cases r) simp
      from fetchCharts_done_ok [OF m this] show ?thesis
        by (simp add: f split: sum.splits option.splits)
    qed
  qed
qed

lemma example_one_point:
  "merge_forecast (forecast_response [JStr (js ''2024-05-01T10:00:00'')] [JNum (Fin v)]
      JUndefined [] [])
     = Inr [\<lparr>time = js ''10:00'', history = JNum (Fin v), history_error = JNull,
             forecast = JNull\<rparr>]"
  by (simp add: merge_forecast_def forecast_response_def js_map_def history_point_def
      isError_def future_point_def js_substring_def js_def)

lemma example_no_scores: "anomalies_of example_lib (JObj []) = Inl TypeError"
  by (simp add: anomalies_of_def js_map_def)

lemma example_empty_anomalies:
  "anomalies_of example_lib (anomaly_response (JNum (Fin 0.5)) JUndefined JUndefined (JArr []))
     = Inr ([], JNum (Fin 0.5))"
  by (simp add: anomalies_of_def anomaly_response_def js_map_def js_def)

text \<open>
  All three requests are fulfilled, but the anomaly response has no \<open>scores\<close>: the
  exception is raised after \<^verbatim>\<open>setForecastData\<close> has been called. The tick fails, the
  anomaly snapshot keeps its old value, and the forecast snapshot has changed.
\<close>

theorem partial_tick_counterexample:
  "anomalies_of example_lib (JObj []) = Inl TypeError
   \<and> forecastData example_dashboard = []
   \<and> forecastData (fetchCharts_done example_lib (js ''z_rms'')
        (Fulfilled (forecast_response [JStr (js ''2024-05-01T10:00:00'')] [JNum (Fin 1.5)]
           JUndefined [] []))
        (Fulfilled (JObj [])) (Fulfilled (JObj [])) example_dashboard)
     = [\<lparr>time = js ''10:00'', history = JNum (Fin 1.5), history_error = JNull,
         forecast = JNull\<rparr>]
   \<and> anomalyData (fetchCharts_done example_lib (js ''z_rms'')
        (Fulfilled (forecast_response [JStr (js ''2024-05-01T10:00:00'')] [JNum (Fin 1.5)]
           JUndefined [] []))
        (Fulfilled (JObj [])) (Fulfilled (JObj [])) example_dashboard)
     = anomalyData example_dashboard"
  using example_one_point [of "1.5"] example_no_scores
  by (simp add: fetchCharts_done_def example_dashboard_def)

text \<open>
  C8, as the code has it. A tick in which one of the three requests is rejected
  changes nothing; so a tick that changes the state had all three requests
  fulfilled. When the three responses are processed without exception and the
  importance response has an entry for the selected metric, the tick replaces the
  forecast, anomaly, threshold and importance snapshots together; when it has no
  such entry, the importance snapshot alone is kept. The snapshots are
  written in this order, each as soon as it is computed: a tick whose forecast
  response merges has replaced the forecast snapshot whatever happens afterwards,
  and a tick whose forecast response raises an exception changes nothing. An
  exception in the anomaly part leaves the forecast snapshot replaced and the other
  snapshots as they were; an exception in the importance part leaves the forecast,
  anomaly and threshold snapshots replaced and the importance snapshot as it was.
\<close>

theorem snapshots_change_only_when_all_fetched:
  "(fr = Rejected \<or> ar = Rejected \<or> ir = Rejected \<longrightarrow>
      fetchCharts_done lib tgt fr ar ir s = s)
   \<and> (fetchCharts_done lib tgt fr ar ir s \<noteq> s \<longrightarrow>
        (\<exists>fd ad imd. fr = Fulfilled fd \<and> ar = Fulfilled ad \<and> ir = Fulfilled imd))
   \<and> (merge_forecast fd = Inr fpts \<and> anomalies_of lib ad = Inr (apts, thr)
        \<and> importance_top lib tgt imd = Inr (Some tf) \<longrightarrow>
        fetchCharts_done lib tgt (Fulfilled fd) (Fulfilled ad) (Fulfilled imd) s
          = s\<lparr>forecastData := fpts, anomalyData := apts, threshold := thr,
               importanceData := tf\<rparr>)
   \<and> (merge_forecast fd = Inr fpts \<longrightarrow>
        forecastData (fetchCharts_done lib tgt (Fulfilled fd) (Fulfilled ad) (Fulfilled imd) s)
          = fpts)
   \<and> (merge_forecast fd = Inl TypeError \<longrightarrow>
        fetchCharts_done lib tgt (Fulfilled fd) (Fulfilled ad) (Fulfilled imd) s = s)
   \<and> (merge_forecast fd = Inr fpts \<and> anomalies_of lib ad = Inr (apts, thr)
        \<and> importance_top lib tgt imd = Inr None \<longrightarrow>
        fetchCharts_done lib tgt (Fulfilled fd) (Fulfilled ad) (Fulfilled imd) s
          = s\<lparr>forecastData := fpts, anomalyData := apts, threshold := thr\<rparr>)
   \<and> (merge_forecast fd = Inr fpts \<and> anomalies_of lib ad = Inl TypeError \<longrightarrow>
        fetchCharts_done lib tgt (Fulfilled fd) (Fulfilled ad) (Fulfilled imd) s
          = s\<lparr>forecastData := fpts\<rparr>)
   \<and> (merge_forecast fd = Inr fpts \<and> anomalies_of lib ad = Inr (apts, thr)
        \<and> importance_top lib tgt imd = Inl TypeError \<longrightarrow>
        fetchCharts_done lib tgt (Fulfilled fd) (Fulfilled ad) (Fulfilled imd) s
          = s\<lparr>forecastData := fpts, anomalyData := apts, threshold := thr\<rparr>)"
proof -
  have A: "fr = Rejected \<or> ar = Rejected \<or> ir = Rejected \<longrightarrow>
      fetchCharts_done lib tgt fr ar ir s = s"
    using fetchCharts_done_rejected by blast
  have B: "fetchCharts_done lib tgt fr ar ir s \<noteq> s \<longrightarrow>
        (\<exists>fd ad imd. fr = Fulfilled fd \<and> ar = Fulfilled ad \<and> ir = Fulfilled imd)"
    using A by (cases fr; cases ar; cases ir) simp_all
  have C: "merge_forecast fd = Inr fpts \<and> anomalies_of lib ad = Inr (apts, thr)
        \<and> importance_top lib tgt imd = Inr (Some tf) \<longrightarrow>
        fetchCharts_done lib tgt (Fulfilled fd) (Fulfilled ad) (Fulfilled imd) s
          = s\<lparr>forecastData := fpts, anomalyData := apts, threshold := thr,
               importanceData := tf\<rparr>"
    by (simp add: fetchCharts_done_ok)
  have D: "merge_forecast fd = Inr fpts \<longrightarrow>
        forecastData (fetchCharts_done lib tgt (Fulfilled fd) (Fulfilled ad) (Fulfilled imd) s)
          = fpts"
    using fetchCharts_done_forecast by blast
  have E: "merge_forecast fd = Inl TypeError \<longrightarrow>
        fetchCharts_done lib tgt (Fulfilled fd) (Fulfilled ad) (Fulfilled imd) s = s"
    using fetchCharts_done_merge_failed by blast
  have F: "merge_forecast fd = Inr fpts \<and> anomalies_of lib ad = Inr (apts, thr)
        \<and> importance_top lib tgt imd = Inr None \<longrightarrow>
        fetchCharts_done lib tgt (Fulfilled fd) (Fulfilled ad) (Fulfilled imd) s
          = s\<lparr>forecastData := fpts, anomalyData := apts, threshold := thr\<rparr>"
    by (simp add: fetchCharts_done_ok)
  have G: "merge_forecast fd = Inr fpts \<and> anomalies_of lib ad = Inl TypeError \<longrightarrow>
        fetchCharts_done lib tgt (Fulfilled fd) (Fulfilled ad) (Fulfilled imd) s
          = s\<lparr>forecastData := fpts\<rparr>"
    using fetchCharts_done_anomalies_failed by blast
  have H: "merge_forecast fd = Inr fpts \<and> anomalies_of lib ad = Inr (apts, thr)
        \<and> importance_top lib tgt imd = Inl TypeError \<longrightarrow>
        fetchCharts_done lib tgt (Fulfilled fd) (Fulfilled ad) (Fulfilled imd) s
          = s\<lparr>forecastData := fpts, anomalyData := apts, threshold := thr\<rparr>"
    by (simp add: fetchCharts_done_ok)
  from A B C D E F G H show ?thesis by (intro conjI)
qed

lemma example_no_importance:
  "importance_top example_lib (js ''z_rms'') (JObj []) = Inr None"
  by (simp add: importance_top_def own_property_def example_lib_def js_def)

lemma example_bad_importance:
  "importance_top example_lib (js ''z_rms'') (JObj [(js ''z_rms'', JNum (Fin 5))])
     = Inl TypeError"
  by (simp add: importance_top_def own_property_def js_slice0_def js_def)

lemma example_importance:
  "importance_top example_lib (js ''z_rms'')
     (JObj [(js ''z_rms'',
             JArr [JObj [(js ''feature'', JStr (js ''motor_temp'')),
                         (js ''importance'', JNum (Fin 0.4))]])])
   = Inr (Some [\<lparr>feature = js ''MOTOR TEMP'', importance = JNum (Fin 0.4)\<rparr>])"
  by (simp add: importance_top_def own_property_def js_slice0_def js_map_def importance_of_def
      example_lib_def js_def)

text \<open>
  A tick with a rejected forecast request, a tick in which everything succeeds, a
  tick whose forecast response is an empty object, a tick without importance entry,
  a tick whose anomaly response is an empty object, and a tick whose importance
  entry is a number.
\<close>

theorem snapshots_change_only_when_all_fetched_witness:
  "fetchCharts_done example_lib (js ''z_rms'') Rejected
       (Fulfilled (anomaly_response (JNum (Fin 0.5)) JUndefined JUndefined (JArr [])))
       (Fulfilled (JObj [])) example_dashboard
     = example_dashboard
   \<and> merge_forecast (forecast_response [JStr (js ''2024-05-01T10:00:00'')] [JNum (Fin 1.5)]
         JUndefined [] [])
       = Inr [\<lparr>time = js ''10:00'', history = JNum (Fin 1.5), history_error = JNull,
               forecast = JNull\<rparr>]
   \<and> anomalies_of example_lib
         (anomaly_response (JNum (Fin 0.5)) JUndefined JUndefined (JArr []))
       = Inr ([], JNum (Fin 0.5))
   \<and> fetchCharts_done example_lib (js ''z_rms'')
       (Fulfilled (forecast_response [JStr (js ''2024-05-01T10:00:00'')] [JNum (Fin 1.5)]
          JUndefined [] []))
       (Fulfilled (anomaly_response (JNum (Fin 0.5)) JUndefined JUndefined (JArr [])))
       (Fulfilled (JObj [(js ''z_rms'',
             JArr [JObj [(js ''feature'', JStr (js ''motor_temp'')),
                         (js ''importance'', JNum (Fin 0.4))]])]))
       example_dashboard
     = example_dashboard
         \<lparr>forecastData := [\<lparr>time = js ''10:00'', history = JNum (Fin 1.5),
                              history_error = JNull, forecast = JNull\<rparr>],
          anomalyData := [], threshold := JNum (Fin 0.5),
          importanceData := [\<lparr>feature = js ''MOTOR TEMP'', importance = JNum (Fin 0.4)\<rparr>]\<rparr>
   \<and> fetchCharts_done example_lib (js ''z_rms'')
       (Fulfilled (forecast_response [JStr (js ''2024-05-01T10:00:00'')] [JNum (Fin 1.5)]
          JUndefined [] []))
       (Fulfilled (anomaly_response (JNum (Fin 0.5)) JUndefined JUndefined (JArr [])))
       (Fulfilled (JObj [(js ''z_rms'',
             JArr [JObj [(js ''feature'', JStr (js ''motor_temp'')),
                         (js ''importance'', JNum (Fin 0.4))]])]))
       example_dashboard
     \<noteq> example_dashboard
   \<and> merge_forecast (JObj []) = Inl TypeError
   \<and> fetchCharts_done example_lib (js ''z_rms'') (Fulfilled (JObj []))
       (Fulfilled (anomaly_response (JNum (Fin 0.5)) JUndefined JUndefined (JArr [])))
       (Fulfilled (JObj [])) example_dashboard
     = example_dashboard
   \<and> importance_top example_lib (js ''z_rms'') (JObj []) = Inr None
   \<and> fetchCharts_done example_lib (js ''z_rms'')
       (Fulfilled (forecast_response [JStr (js ''2024-05-01T10:00:00'')] [JNum (Fin 1.5)]
          JUndefined [] []))
       (Fulfilled (anomaly_response (JNum (Fin 0.5)) JUndefined JUndefined (JArr [])))
       (Fulfilled (JObj [])) example_dashboard
     = example_dashboard
         \<lparr>forecastData := [\<lparr>time = js ''10:00'', history = JNum (Fin 1.5),
                              history_error = JNull, forecast = JNull\<rparr>],
          anomalyData := [], threshold := JNum (Fin 0.5)\<rparr>
   \<and> anomalies_of example_lib (JObj []) = Inl TypeError
   \<and> fetchCharts_done example_lib (js ''z_rms'')
       (Fulfilled (forecast_response [JStr (js ''2024-05-01T10:00:00'')] [JNum (Fin 1.5)]
          JUndefined [] []))
       (Fulfilled (JObj [])) (Fulfilled (JObj [])) example_dashboard
     = example_dashboard
         \<lparr>forecastData := [\<lparr>time = js ''10:00'', history = JNum (Fin 1.5),
                              history_error = JNull, forecast = JNull\<rparr>]\<rparr>
   \<and> importance_top example_lib (js ''z_rms'') (JObj [(js ''z_rms'', JNum (Fin 5))])
       = Inl TypeError
   \<and> fetchCharts_done example_lib (js ''z_rms'')
       (Fulfilled (forecast_response [JStr (js ''2024-05-01T10:00:00'')] [JNum (Fin 1.5)]
          JUndefined [] []))
       (Fulfilled (anomaly_response (JNum (Fin 0.5)) JUndefined JUndefined (JArr [])))
       (Fulfilled (JObj [(js ''z_rms'', JNum (Fin 5))])) example_dashboard
     = example_dashboard
         \<lparr>forecastData := [\<lparr>time = js ''10:00'', history = JNum (Fin 1.5),
                              history_error = JNull, forecast = JNull\<rparr>],
          anomalyData := [], threshold := JNum (Fin 0.5)\<rparr>"
proof -
  let ?fd = "forecast_response [JStr (js ''2024-05-01T10:00:00'')] [JNum (Fin 1.5)]
          JUndefined [] []"
  let ?ad = "anomaly_response (JNum (Fin 0.5)) JUndefined JUndefined (JArr [])"
  let ?im = "JObj [(js ''z_rms'',
             JArr [JObj [(js ''feature'', JStr (js ''motor_temp'')),
                         (js ''importance'', JNum (Fin 0.4))]])]"
  let ?p = "\<lparr>time = js ''10:00'', history = JNum (Fin 1.5), history_error = JNull,
               forecast = JNull\<rparr>"
  let ?e = "\<lparr>feature = js ''MOTOR TEMP'', importance = JNum (Fin 0.4)\<rparr>"
  have m: "merge_forecast ?fd = Inr [?p]"
    by (rule example_one_point)
  have bad: "merge_forecast (JObj []) = Inl TypeError"
    by (simp add: merge_forecast_def js_map_def)
  note T1 = snapshots_change_only_when_all_fetched
      [where fr = Rejected and ar = "Fulfilled ?ad" and ir = "Fulfilled (JObj [])"
         and lib = example_lib and tgt = "js ''z_rms''" and s = example_dashboard
         and fd = ?fd and fpts = "[?p]" and ad = ?ad and apts = "[]"
         and thr = "JNum (Fin 0.5)" and imd = ?im and tf = "[?e]"]
  note T2 = snapshots_change_only_when_all_fetched
      [where lib = example_lib and tgt = "js ''z_rms''" and s = example_dashboard
         and fd = "JObj []" and ad = ?ad and imd = "JObj []"]
  have a: "fetchCharts_done example_lib (js ''z_rms'') Rejected (Fulfilled ?ad)
             (Fulfilled (JObj [])) example_dashboard = example_dashboard"
    using T1 by blast
  have c: "fetchCharts_done example_lib (js ''z_rms'') (Fulfilled ?fd) (Fulfilled ?ad)
             (Fulfilled ?im) example_dashboard
           = example_dashboard\<lparr>forecastData := [?p], anomalyData := [],
               threshold := JNum (Fin 0.5), importanceData := [?e]\<rparr>"
    by (rule mp [OF conjunct1 [OF conjunct2 [OF conjunct2 [OF T1]]]])
       (intro conjI m example_empty_anomalies example_importance)
  have e: "fetchCharts_done example_lib (js ''z_rms'') (Fulfilled (JObj [])) (Fulfilled ?ad)
             (Fulfilled (JObj [])) example_dashboard = example_dashboard"
    by (rule mp [OF conjunct1 [OF conjunct2 [OF conjunct2 [OF conjunct2 [OF conjunct2 [OF T2]]]]]])
       (rule bad)
  note T3 = snapshots_change_only_when_all_fetched
      [where lib = example_lib and tgt = "js ''z_rms''" and s = example_dashboard
         and fd = ?fd and fpts = "[?p]" and ad = ?ad and apts = "[]"
         and thr = "JNum (Fin 0.5)" and imd = "JObj []"]
  have f: "fetchCharts_done example_lib (js ''z_rms'') (Fulfilled ?fd) (Fulfilled ?ad)
             (Fulfilled (JObj [])) example_dashboard
           = example_dashboard\<lparr>forecastData := [?p], anomalyData := [],
               threshold := JNum (Fin 0.5)\<rparr>"
    by (rule mp [OF conjunct1 [OF conjunct2 [OF conjunct2 [OF conjunct2 [OF conjunct2
          [OF conjunct2 [OF T3]]]]]]])
       (intro conjI m example_empty_anomalies example_no_importance)
  note T4 = snapshots_change_only_when_all_fetched
      [where lib = example_lib and tgt = "js ''z_rms''" and s = example_dashboard
         and fd = ?fd and fpts = "[?p]" and ad = "JObj []" and imd = "JObj []"]
  have g: "fetchCharts_done example_lib (js ''z_rms'') (Fulfilled ?fd) (Fulfilled (JObj []))
             (Fulfilled (JObj [])) example_dashboard
           = example_dashboard\<lparr>forecastData := [?p]\<rparr>"
    by (rule mp [OF conjunct1 [OF conjunct2 [OF conjunct2 [OF conjunct2 [OF conjunct2
          [OF conjunct2 [OF conjunct2 [OF T4]]]]]]]])
       (intro conjI m example_no_scores)
  note T5 = snapshots_change_only_when_all_fetched
      [where lib = example_lib and tgt = "js ''z_rms''" and s = example_dashboard
         and fd = ?fd and fpts = "[?p]" and ad = ?ad and apts = "[]"
         and thr = "JNum (Fin 0.5)" and imd = "JObj [(js ''z_rms'', JNum (Fin 5))]"]
  have h: "fetchCharts_done example_lib (js ''z_rms'') (Fulfilled ?fd) (Fulfilled ?ad)
             (Fulfilled (JObj [(js ''z_rms'', JNum (Fin 5))])) example_dashboard
           = example_dashboard\<lparr>forecastData := [?p], anomalyData := [],
               threshold := JNum (Fin 0.5)\<rparr>"
    by (rule mp [OF conjunct2 [OF conjunct2 [OF conjunct2 [OF conjunct2 [OF conjunct2
          [OF conjunct2 [OF conjunct2 [OF T5]]]]]]]])
       (intro conjI m example_empty_anomalies example_bad_importance)
  have ne: "fetchCharts_done example_lib (js ''z_rms'') (Fulfilled ?fd) (Fulfilled ?ad)
             (Fulfilled ?im) example_dashboard \<noteq> example_dashboard"
    unfolding c by (simp add: example_dashboard_def)
  show ?thesis
    by (intro conjI)
       (rule a m example_empty_anomalies c ne bad e example_no_importance f example_no_scores g
          example_bad_importance h)+
qed

text \<open>
  C9, as the code has it. Two ticks overlap and the tick \<open>(fd, ad, imd)\<close> is the one
  whose requests settle last; the other tick \<open>(fr, ar, ir)\<close> has been applied to the
  state before, whichever of the two was started first. If the forecast and anomaly
  responses of the tick settling last are processed without exception, the
  forecast, anomaly and threshold snapshots displayed afterwards are its own. If
  its importance part yields rows as well, the importance snapshot is its own too
  and the whole state is as if the other tick had never been applied; if its
  importance part yields none (no entry for the metric, or an exception), the
  importance snapshot displayed is the one the other tick left. There is no
  sequence number or other guard: for each snapshot, the tick that wrote it last
  wins.
\<close>

theorem tick_resolving_last_overwrites:
  assumes "merge_forecast fd = Inr fpts" and "anomalies_of lib ad = Inr (apts, thr)"
    and "shown = fetchCharts_done lib tgt (Fulfilled fd) (Fulfilled ad) (Fulfilled imd)
                   (fetchCharts_done lib tgt' fr ar ir s)"
  shows "forecastData shown = fpts \<and> anomalyData shown = apts \<and> threshold shown = thr
     \<and> (\<forall>tf. importance_top lib tgt imd = Inr (Some tf) \<longrightarrow>
           shown = fetchCharts_done lib tgt (Fulfilled fd) (Fulfilled ad) (Fulfilled imd) s)
     \<and> (\<forall>tf. importance_top lib tgt imd = Inr (Some tf) \<longrightarrow> importanceData shown = tf)
     \<and> ((\<forall>tf. importance_top lib tgt imd \<noteq> Inr (Some tf)) \<longrightarrow>
           importanceData shown = importanceData (fetchCharts_done lib tgt' fr ar ir s))"
proof -
  let ?t = "fetchCharts_done lib tgt' fr ar ir s"
  note ok = fetchCharts_done_ok [OF assms(1,2)]
  have a: "forecastData shown = fpts \<and> anomalyData shown = apts \<and> threshold shown = thr"
    unfolding assms(3) ok by (simp split: sum.splits option.splits)
  have b: "shown = fetchCharts_done lib tgt (Fulfilled fd) (Fulfilled ad) (Fulfilled imd) s"
    if "importance_top lib tgt imd = Inr (Some tf)" for tf
  proof -
    have "summary ?t = summary s" by (rule fetchCharts_done_summary)
    then have "?t\<lparr>forecastData := fpts, anomalyData := apts, threshold := thr,
                   importanceData := tf\<rparr>
             = s\<lparr>forecastData := fpts, anomalyData := apts, threshold := thr,
                   importanceData := tf\<rparr>"
      by (cases ?t; cases s) simp
    then show ?thesis
      unfolding assms(3) ok that by simp
  qed
  have c: "importanceData shown = tf" if "importance_top lib tgt imd = Inr (Some tf)" for tf
    unfolding assms(3) ok that by simp
  have d: "importanceData shown = importanceData ?t"
    if "\<forall>tf. importance_top lib tgt imd \<noteq> Inr (Some tf)"
    unfolding assms(3) ok using that by (simp split: sum.splits option.splits)
  from a b c d show ?thesis by blast
qed

text \<open>
  Tick 1 is started first and fetches the history value 1; tick 2 is started later
  and fetches the value 2. Tick 2 settles first and the chart shows 2; then tick 1
  settles and the chart shows 1: the older result has overwritten the newer one.
\<close>

theorem newer_tick_overwritten_counterexample:
  "map history (forecastData (fetchCharts_done example_lib (js ''z_rms'')
      (Fulfilled (forecast_response [JStr (js ''2024-05-01T10:00:00'')] [JNum (Fin 2)]
         JUndefined [] []))
      (Fulfilled (anomaly_response (JNum (Fin 0.5)) JUndefined JUndefined (JArr [])))
      (Fulfilled (JObj [])) example_dashboard))
     = [JNum (Fin 2)]
   \<and> map history (forecastData (fetchCharts_done example_lib (js ''z_rms'')
      (Fulfilled (forecast_response [JStr (js ''2024-05-01T10:00:00'')] [JNum (Fin 1)]
         JUndefined [] []))
      (Fulfilled (anomaly_response (JNum (Fin 0.5)) JUndefined JUndefined (JArr [])))
      (Fulfilled (JObj []))
      (fetchCharts_done example_lib (js ''z_rms'')
        (Fulfilled (forecast_response [JStr (js ''2024-05-01T10:00:00'')] [JNum (Fin 2)]
           JUndefined [] []))
        (Fulfilled (anomaly_response (JNum (Fin 0.5)) JUndefined JUndefined (JArr [])))
        (Fulfilled (JObj [])) example_dashboard)))
     = [JNum (Fin 1)]"
  by (simp add: fetchCharts_done_forecast [OF example_one_point])

text \<open>
  The tick started first (history value 1) settles after the tick started later
  (history value 2): once with importance rows of its own, once without, where the
  rows of the tick started later stay displayed.
\<close>

theorem tick_resolving_last_overwrites_witness:
  "merge_forecast (forecast_response [JStr (js ''2024-05-01T10:00:00'')] [JNum (Fin 1)]
         JUndefined [] [])
     = Inr [\<lparr>time = js ''10:00'', history = JNum (Fin 1), history_error = JNull,
             forecast = JNull\<rparr>]
   \<and> anomalies_of example_lib
         (anomaly_response (JNum (Fin 0.5)) JUndefined JUndefined (JArr []))
       = Inr ([], JNum (Fin 0.5))
   \<and> importance_top example_lib (js ''z_rms'')
         (JObj [(js ''z_rms'',
                 JArr [JObj [(js ''feature'', JStr (js ''motor_temp'')),
                             (js ''importance'', JNum (Fin 0.4))]])])
       = Inr (Some [\<lparr>feature = js ''MOTOR TEMP'', importance = JNum (Fin 0.4)\<rparr>])
   \<and> forecastData (fetchCharts_done example_lib (js ''z_rms'')
        (Fulfilled (forecast_response [JStr (js ''2024-05-01T10:00:00'')] [JNum (Fin 1)]
           JUndefined [] []))
        (Fulfilled (anomaly_response (JNum (Fin 0.5)) JUndefined JUndefined (JArr [])))
        (Fulfilled (JObj [(js ''z_rms'',
                 JArr [JObj [(js ''feature'', JStr (js ''motor_temp'')),
                             (js ''importance'', JNum (Fin 0.4))]])]))
        (fetchCharts_done example_lib (js ''z_rms'')
          (Fulfilled (forecast_response [JStr (js ''2024-05-01T10:00:00'')] [JNum (Fin 2)]
             JUndefined [] []))
          (Fulfilled (anomaly_response (JNum (Fin 0.5)) JUndefined JUndefined (JArr [])))
          (Fulfilled (JObj [])) example_dashboard))
       = [\<lparr>time = js ''10:00'', history = JNum (Fin 1), history_error = JNull,
           forecast = JNull\<rparr>]
   \<and> fetchCharts_done example_lib (js ''z_rms'')
        (Fulfilled (forecast_response [JStr (js ''2024-05-01T10:00:00'')] [JNum (Fin 1)]
           JUndefined [] []))
        (Fulfilled (anomaly_response (JNum (Fin 0.5)) JUndefined JUndefined (JArr [])))
        (Fulfilled (JObj [(js ''z_rms'',
                 JArr [JObj [(js ''feature'', JStr (js ''motor_temp'')),
                             (js ''importance'', JNum (Fin 0.4))]])]))
        (fetchCharts_done example_lib (js ''z_rms'')
          (Fulfilled (forecast_response [JStr (js ''2024-05-01T10:00:00'')] [JNum (Fin 2)]
             JUndefined [] []))
          (Fulfilled (anomaly_response (JNum (Fin 0.5)) JUndefined JUndefined (JArr [])))
          (Fulfilled (JObj [])) example_dashboard)
       = fetchCharts_done example_lib (js ''z_rms'')
        (Fulfilled (forecast_response [JStr (js ''2024-05-01T10:00:00'')] [JNum (Fin 1)]
           JUndefined [] []))
        (Fulfilled (anomaly_response (JNum (Fin 0.5)) JUndefined JUndefined (JArr [])))
        (Fulfilled (JObj [(js ''z_rms'',
                 JArr [JObj [(js ''feature'', JStr (js ''motor_temp'')),
                             (js ''importance'', JNum (Fin 0.4))]])]))
        example_dashboard
   \<and> importance_top example_lib (js ''z_rms'') (JObj []) = Inr None
   \<and> importanceData (fetchCharts_done example_lib (js ''z_rms'')
        (Fulfilled (forecast_response [JStr (js ''2024-05-01T10:00:00'')] [JNum (Fin 1)]
           JUndefined [] []))
        (Fulfilled (anomaly_response (JNum (Fin 0.5)) JUndefined JUndefined (JArr [])))
        (Fulfilled (JObj []))
        (fetchCharts_done example_lib (js ''z_rms'')
          (Fulfilled (forecast_response [JStr (js ''2024-05-01T10:00:00'')] [JNum (Fin 2)]
             JUndefined [] []))
          (Fulfilled (anomaly_response (JNum (Fin 0.5)) JUndefined JUndefined (JArr [])))
          (Fulfilled (JObj [(js ''z_rms'',
                 JArr [JObj [(js ''feature'', JStr (js ''motor_temp'')),
                             (js ''importance'', JNum (Fin 0.4))]])]))
          example_dashboard))
       = [\<lparr>feature = js ''MOTOR TEMP'', importance = JNum (Fin 0.4)\<rparr>]"
proof -
  let ?old = "forecast_response [JStr (js ''2024-05-01T10:00:00'')] [JNum (Fin 1)]
           JUndefined [] []"
  let ?new = "forecast_response [JStr (js ''2024-05-01T10:00:00'')] [JNum (Fin 2)]
             JUndefined [] []"
  let ?ad = "anomaly_response (JNum (Fin 0.5)) JUndefined JUndefined (JArr [])"
  let ?im = "JObj [(js ''z_rms'',
                 JArr [JObj [(js ''feature'', JStr (js ''motor_temp'')),
                             (js ''importance'', JNum (Fin 0.4))]])]"
  let ?shown = "fetchCharts_done example_lib (js ''z_rms'') (Fulfilled ?old)
          (Fulfilled ?ad) (Fulfilled ?im)
          (fetchCharts_done example_lib (js ''z_rms'') (Fulfilled ?new) (Fulfilled ?ad)
             (Fulfilled (JObj [])) example_dashboard)"
  have m: "merge_forecast ?old
     = Inr [\<lparr>time = js ''10:00'', history = JNum (Fin 1), history_error = JNull,
             forecast = JNull\<rparr>]"
    by (rule example_one_point)
  note T = tick_resolving_last_overwrites [OF m example_empty_anomalies refl,
      of "js ''z_rms''" ?im "js ''z_rms''" "Fulfilled ?new" "Fulfilled ?ad"
         "Fulfilled (JObj [])" example_dashboard]
  have a: "forecastData ?shown
       = [\<lparr>time = js ''10:00'', history = JNum (Fin 1), history_error = JNull,
           forecast = JNull\<rparr>]"
    using T by (rule conjunct1)
  have b: "?shown = fetchCharts_done example_lib (js ''z_rms'') (Fulfilled ?old)
          (Fulfilled ?ad) (Fulfilled ?im) example_dashboard"
    using T example_importance by blast
  note U = tick_resolving_last_overwrites [OF m example_empty_anomalies refl,
      of "js ''z_rms''" "JObj []" "js ''z_rms''" "Fulfilled ?new" "Fulfilled ?ad"
         "Fulfilled ?im" example_dashboard]
  have n: "\<forall>tf. importance_top example_lib (js ''z_rms'') (JObj []) \<noteq> Inr (Some tf)"
    by (simp add: example_no_importance)
  have w: "importanceData (fetchCharts_done example_lib (js ''z_rms'') (Fulfilled ?new)
             (Fulfilled ?ad) (Fulfilled ?im) example_dashboard)
           = [\<lparr>feature = js ''MOTOR TEMP'', importance = JNum (Fin 0.4)\<rparr>]"
    unfolding fetchCharts_done_ok [OF example_one_point example_empty_anomalies]
      example_importance
    by simp
  have c: "importanceData (fetchCharts_done example_lib (js ''z_rms'') (Fulfilled ?old)
          (Fulfilled ?ad) (Fulfilled (JObj []))
          (fetchCharts_done example_lib (js ''z_rms'') (Fulfilled ?new) (Fulfilled ?ad)
             (Fulfilled ?im) example_dashboard))
       = [\<lparr>feature = js ''MOTOR TEMP'', importance = JNum (Fin 0.4)\<rparr>]"
    using U [THEN conjunct2, THEN conjunct2, THEN conjunct2, THEN conjunct2, THEN conjunct2,
             THEN mp, OF n] w
    by simp
  show ?thesis
    by (intro conjI)
       (rule m example_empty_anomalies example_importance a b example_no_importance c)+
qed

end
